theory Spec2Isabelle
  imports Complex_Main
begin

section \<open>Python values, dictionaries and errors\<close>

text \<open>
  The values that travel between the tools, the ClickUp service and the HTTP layer are
  what \<^verbatim>\<open>json.loads\<close> returns and what \<^verbatim>\<open>requests\<close> serialises: Python's
  \<^verbatim>\<open>None\<close>, booleans, unbounded integers, floats, strings, lists and dictionaries.
  A dictionary is an association list in insertion order. A float is read as the real
  number it denotes.
\<close>

datatype json =
    JNull
  | JBool bool
  | JInt int
  | JFloat real
  | JStr string
  | JArr "json list"
  | JObj "(string \<times> json) list"

type_synonym dict = "(string \<times> json) list"

text \<open>The exceptions the code raises or lets through, as values.\<close>

datatype error =
    ValueError string
  | JSONDecodeError string
  | RecursionError string
  | HTTPError string
  | ModelError string
  | ValidationError string

text \<open>Python's truth value of an object, as tested by \<^verbatim>\<open>if x:\<close> and \<^verbatim>\<open>not x\<close>.\<close>

fun truthy :: "json \<Rightarrow> bool" where
  "truthy JNull = False"
| "truthy (JBool b) = b"
| "truthy (JInt i) = (i \<noteq> 0)"
| "truthy (JFloat r) = (r \<noteq> 0)"
| "truthy (JStr s) = (s \<noteq> [])"
| "truthy (JArr xs) = (xs \<noteq> [])"
| "truthy (JObj kvs) = (kvs \<noteq> [])"

text \<open>An \<^verbatim>\<open>Optional[str]\<close>, \<^verbatim>\<open>Optional[int]\<close> or \<^verbatim>\<open>Optional[bool]\<close> argument as the Python
  object it is: \<^verbatim>\<open>None\<close> is \<open>JNull\<close>.\<close>

definition of_str :: "string option \<Rightarrow> json" where
  "of_str x = (case x of None \<Rightarrow> JNull | Some s \<Rightarrow> JStr s)"

definition of_int :: "int option \<Rightarrow> json" where
  "of_int x = (case x of None \<Rightarrow> JNull | Some i \<Rightarrow> JInt i)"

definition of_bool :: "bool option \<Rightarrow> json" where
  "of_bool x = (case x of None \<Rightarrow> JNull | Some b \<Rightarrow> JBool b)"

text \<open>\<^verbatim>\<open>d.get(k)\<close> and \<^verbatim>\<open>d[k] = v\<close> on a dictionary: an existing key keeps its place,
  a new key goes to the end.\<close>

definition dict_get :: "dict \<Rightarrow> string \<Rightarrow> json option" where
  "dict_get d k = map_of d k"

fun dict_set :: "dict \<Rightarrow> string \<Rightarrow> json \<Rightarrow> dict" where
  "dict_set [] k v = [(k, v)]"
| "dict_set ((k', v') # d) k v = (if k' = k then (k, v) # d else (k', v') # dict_set d k v)"

definition keys :: "dict \<Rightarrow> string list" where
  "keys d = map fst d"

text \<open>The two guards of the service's payload construction:
  \<^verbatim>\<open>if x: data[k] = x\<close> and \<^verbatim>\<open>if x is not None: data[k] = x\<close>.\<close>

definition set_if_truthy :: "string \<Rightarrow> json \<Rightarrow> dict \<Rightarrow> dict" where
  "set_if_truthy k x data = (if truthy x then dict_set data k x else data)"

definition set_if_not_None :: "string \<Rightarrow> json \<Rightarrow> dict \<Rightarrow> dict" where
  "set_if_not_None k x data = (if x \<noteq> JNull then dict_set data k x else data)"

section \<open>The ClickUp service (server/clickup\_service.py)\<close>

text \<open>
  The environment (\<^verbatim>\<open>os.getenv\<close>) and the HTTP layer (\<^verbatim>\<open>requests\<close>) are parameters.
  A transport takes the request and gives what \<^verbatim>\<open>raise_for_status\<close> followed by
  \<^verbatim>\<open>response.json()\<close> gives: the decoded body, or the exception.
\<close>

datatype http_method = GET | POST | PUT | DELETE

record request =
  rq_method :: http_method
  rq_url :: string
  rq_headers :: "(string \<times> string) list"
  rq_json :: "dict option"

type_synonym environ = "string \<Rightarrow> string option"
type_synonym transport = "request \<Rightarrow> error + json"

record ClickUpService =
  api_key :: string
  team_id :: string
  headers :: "(string \<times> string) list"

definition BASE_URL :: string where
  "BASE_URL = ''https://api.clickup.com/api/v2''"

definition ClickUpService_init :: "environ \<Rightarrow> error + ClickUpService" where
  "ClickUpService_init getenv =
     (let api_key = getenv ''CLICKUP_API_KEY'';
          team_id = getenv ''CLICKUP_TEAM_ID''
      in if \<not> truthy (of_str api_key) then
           Inl (ValueError ''CLICKUP_API_KEY environment variable not set'')
         else if \<not> truthy (of_str team_id) then
           Inl (ValueError ''CLICKUP_TEAM_ID environment variable not set'')
         else
           Inr \<lparr>api_key = the api_key, team_id = the team_id,
                headers = [(''Authorization'', the api_key),
                           (''Content-Type'', ''application/json''),
                           (''Accept'', ''application/json'')]\<rparr>)"

definition get_spaces :: "transport \<Rightarrow> ClickUpService \<Rightarrow> error + json" where
  "get_spaces http self =
     (let url = BASE_URL @ ''/team/'' @ team_id self @ ''/space''
      in http \<lparr>rq_method = GET, rq_url = url, rq_headers = headers self, rq_json = None\<rparr>)"

definition get_lists :: "transport \<Rightarrow> ClickUpService \<Rightarrow> string \<Rightarrow> error + json" where
  "get_lists http self space_id =
     (let url = BASE_URL @ ''/space/'' @ space_id @ ''/list''
      in http \<lparr>rq_method = GET, rq_url = url, rq_headers = headers self, rq_json = None\<rparr>)"

definition get_tasks :: "transport \<Rightarrow> ClickUpService \<Rightarrow> string \<Rightarrow> error + json" where
  "get_tasks http self list_id =
     (let url = BASE_URL @ ''/list/'' @ list_id @ ''/task''
      in http \<lparr>rq_method = GET, rq_url = url, rq_headers = headers self, rq_json = None\<rparr>)"

text \<open>The payload of \<^verbatim>\<open>create_task\<close>: the dictionary \<^verbatim>\<open>data\<close> as it stands when the
  request is sent. \<open>assignees\<close>, \<open>tags\<close> and \<open>custom_fields\<close> are whatever object the
  caller passes (\<open>JNull\<close> for \<^verbatim>\<open>None\<close>).\<close>

definition create_task_data ::
  "string \<Rightarrow> string option \<Rightarrow> int option \<Rightarrow> int option \<Rightarrow> bool \<Rightarrow> int option \<Rightarrow>
   int option \<Rightarrow> bool \<Rightarrow> json \<Rightarrow> json \<Rightarrow> string option \<Rightarrow> json \<Rightarrow> dict" where
  "create_task_data name description due_date priority due_date_time time_estimate
                    start_date start_date_time assignees tags status custom_fields =
     (let data = [(''name'', JStr name),
                  (''due_date_time'', JBool due_date_time),
                  (''start_date_time'', JBool start_date_time)];
          data = set_if_truthy ''description'' (of_str description) data;
          data = set_if_truthy ''due_date'' (of_int due_date) data;
          data = set_if_truthy ''priority'' (of_int priority) data;
          data = set_if_truthy ''time_estimate'' (of_int time_estimate) data;
          data = set_if_truthy ''start_date'' (of_int start_date) data;
          data = set_if_truthy ''assignees'' assignees data;
          data = set_if_truthy ''tags'' tags data;
          data = set_if_truthy ''status'' (of_str status) data;
          data = set_if_truthy ''custom_fields'' custom_fields data
      in data)"

definition create_task ::
  "transport \<Rightarrow> ClickUpService \<Rightarrow> string \<Rightarrow> string \<Rightarrow> string option \<Rightarrow> int option \<Rightarrow>
   int option \<Rightarrow> bool \<Rightarrow> int option \<Rightarrow> int option \<Rightarrow> bool \<Rightarrow> json \<Rightarrow> json \<Rightarrow>
   string option \<Rightarrow> json \<Rightarrow> error + json" where
  "create_task http self list_id name description due_date priority due_date_time
               time_estimate start_date start_date_time assignees tags status custom_fields =
     (let url = BASE_URL @ ''/list/'' @ list_id @ ''/task'';
          data = create_task_data name description due_date priority due_date_time
                   time_estimate start_date start_date_time assignees tags status custom_fields
      in http \<lparr>rq_method = POST, rq_url = url, rq_headers = headers self,
               rq_json = Some data\<rparr>)"

text \<open>The payload of \<^verbatim>\<open>update_task\<close>: it starts empty; the three string fields are
  guarded by their truth value, the others by \<^verbatim>\<open>is not None\<close>.\<close>

definition update_task_data ::
  "string option \<Rightarrow> string option \<Rightarrow> string option \<Rightarrow> int option \<Rightarrow> int option \<Rightarrow>
   bool option \<Rightarrow> int option \<Rightarrow> int option \<Rightarrow> bool option \<Rightarrow> json \<Rightarrow> bool option \<Rightarrow> dict" where
  "update_task_data name description status priority due_date due_date_time time_estimate
                    start_date start_date_time assignees archived =
     (let data = [];
          data = set_if_truthy ''name'' (of_str name) data;
          data = set_if_truthy ''description'' (of_str description) data;
          data = set_if_truthy ''status'' (of_str status) data;
          data = set_if_not_None ''priority'' (of_int priority) data;
          data = set_if_not_None ''due_date'' (of_int due_date) data;
          data = set_if_not_None ''due_date_time'' (of_bool due_date_time) data;
          data = set_if_not_None ''time_estimate'' (of_int time_estimate) data;
          data = set_if_not_None ''start_date'' (of_int start_date) data;
          data = set_if_not_None ''start_date_time'' (of_bool start_date_time) data;
          data = set_if_not_None ''assignees'' assignees data;
          data = set_if_not_None ''archived'' (of_bool archived) data
      in data)"

definition update_task ::
  "transport \<Rightarrow> ClickUpService \<Rightarrow> string \<Rightarrow> string option \<Rightarrow> string option \<Rightarrow>
   string option \<Rightarrow> int option \<Rightarrow> int option \<Rightarrow> bool option \<Rightarrow> int option \<Rightarrow> int option \<Rightarrow>
   bool option \<Rightarrow> json \<Rightarrow> bool option \<Rightarrow> error + json" where
  "update_task http self task_id name description status priority due_date due_date_time
               time_estimate start_date start_date_time assignees archived =
     (let url = BASE_URL @ ''/task/'' @ task_id;
          data = update_task_data name description status priority due_date due_date_time
                   time_estimate start_date start_date_time assignees archived
      in http \<lparr>rq_method = PUT, rq_url = url, rq_headers = headers self,
               rq_json = Some data\<rparr>)"

definition delete_task :: "transport \<Rightarrow> ClickUpService \<Rightarrow> string \<Rightarrow> error + json" where
  "delete_task http self task_id =
     (let url = BASE_URL @ ''/task/'' @ task_id
      in http \<lparr>rq_method = DELETE, rq_url = url, rq_headers = headers self, rq_json = None\<rparr>)"

definition get_task_by_id :: "transport \<Rightarrow> ClickUpService \<Rightarrow> string \<Rightarrow> error + json" where
  "get_task_by_id http self task_id =
     (let url = BASE_URL @ ''/task/'' @ task_id
      in http \<lparr>rq_method = GET, rq_url = url, rq_headers = headers self, rq_json = None\<rparr>)"

definition set_custom_field_value ::
  "transport \<Rightarrow> ClickUpService \<Rightarrow> string \<Rightarrow> string \<Rightarrow> json \<Rightarrow> error + json" where
  "set_custom_field_value http self task_id field_id val =
     (let url = BASE_URL @ ''/task/'' @ task_id @ ''/field/'' @ field_id;
          data = [(''value'', val)]
      in http \<lparr>rq_method = POST, rq_url = url, rq_headers = headers self,
               rq_json = Some data\<rparr>)"

section \<open>The tools (sample\_agent/agent.py)\<close>

text \<open>
  \<^verbatim>\<open>json.loads\<close> is a parameter: \<open>loads s\<close> is \<open>Inr v\<close> when the text \<open>s\<close> decodes to
  the object \<open>v\<close>, and \<open>Inl e\<close> when \<^verbatim>\<open>json.loads\<close> raises the exception \<open>e\<close>. For a
  malformed text that is \<^verbatim>\<open>JSONDecodeError\<close>; it is not the only one: an integer of more
  digits than the interpreter's limit raises a plain \<^verbatim>\<open>ValueError\<close>, and a text nested
  too deeply raises \<^verbatim>\<open>RecursionError\<close>.
  Every tool builds its own \<^verbatim>\<open>ClickUpService()\<close> first, so a missing configuration
  value is the tool's first possible exception. An \<^verbatim>\<open>Optional\<close> argument is an option,
  \<open>None\<close> being Python's \<^verbatim>\<open>None\<close>; the two flags of \<^verbatim>\<open>create_clickup_task\<close> have
  the default \<^verbatim>\<open>False\<close>, so a flag the caller leaves out is \<open>Some False\<close>.
\<close>

type_synonym decoder = "string \<Rightarrow> error + json"

text \<open>\<^verbatim>\<open>json.loads(x) if x else None\<close> for an \<^verbatim>\<open>Optional[str]\<close> argument \<open>x\<close>: no
  exception of \<^verbatim>\<open>json.loads\<close> is caught here.\<close>

definition loads_if :: "decoder \<Rightarrow> string option \<Rightarrow> error + json" where
  "loads_if loads x = (if truthy (of_str x) then loads (the x) else Inr JNull)"

definition get_clickup_spaces :: "environ \<Rightarrow> transport \<Rightarrow> error + json" where
  "get_clickup_spaces getenv http =
     (case ClickUpService_init getenv of
        Inl e \<Rightarrow> Inl e
      | Inr clickup \<Rightarrow> get_spaces http clickup)"

definition get_clickup_lists :: "environ \<Rightarrow> transport \<Rightarrow> string \<Rightarrow> error + json" where
  "get_clickup_lists getenv http space_id =
     (case ClickUpService_init getenv of
        Inl e \<Rightarrow> Inl e
      | Inr clickup \<Rightarrow> get_lists http clickup space_id)"

definition get_clickup_tasks :: "environ \<Rightarrow> transport \<Rightarrow> string \<Rightarrow> error + json" where
  "get_clickup_tasks getenv http list_id =
     (case ClickUpService_init getenv of
        Inl e \<Rightarrow> Inl e
      | Inr clickup \<Rightarrow> get_tasks http clickup list_id)"

definition create_clickup_task ::
  "decoder \<Rightarrow> environ \<Rightarrow> transport \<Rightarrow> string \<Rightarrow> string \<Rightarrow> string option \<Rightarrow> int option \<Rightarrow>
   int option \<Rightarrow> bool option \<Rightarrow> int option \<Rightarrow> int option \<Rightarrow> bool option \<Rightarrow>
   string option \<Rightarrow> string option \<Rightarrow> string option \<Rightarrow> error + json" where
  "create_clickup_task loads getenv http list_id name description due_date priority
                       due_date_time time_estimate start_date start_date_time
                       assignees tags status =
     (case ClickUpService_init getenv of
        Inl e \<Rightarrow> Inl e
      | Inr clickup \<Rightarrow>
          (case loads_if loads assignees of
             Inl e \<Rightarrow> Inl e
           | Inr assignees_list \<Rightarrow>
               (case loads_if loads tags of
                  Inl e \<Rightarrow> Inl e
                | Inr tags_list \<Rightarrow>
                    create_task http clickup list_id name description due_date priority
                      (case due_date_time of None \<Rightarrow> False | Some b \<Rightarrow> b)
                      time_estimate start_date
                      (case start_date_time of None \<Rightarrow> False | Some b \<Rightarrow> b)
                      assignees_list tags_list status JNull)))"

definition update_clickup_task ::
  "decoder \<Rightarrow> environ \<Rightarrow> transport \<Rightarrow> string \<Rightarrow> string option \<Rightarrow> string option \<Rightarrow>
   string option \<Rightarrow> int option \<Rightarrow> int option \<Rightarrow> bool option \<Rightarrow> int option \<Rightarrow> int option \<Rightarrow>
   bool option \<Rightarrow> string option \<Rightarrow> bool option \<Rightarrow> error + json" where
  "update_clickup_task loads getenv http task_id name description status priority due_date
                       due_date_time time_estimate start_date start_date_time
                       assignees archived =
     (case ClickUpService_init getenv of
        Inl e \<Rightarrow> Inl e
      | Inr clickup \<Rightarrow>
          (case loads_if loads assignees of
             Inl e \<Rightarrow> Inl e
           | Inr assignees_list \<Rightarrow>
               update_task http clickup task_id name description status priority due_date
                 (case due_date_time of None \<Rightarrow> None | Some b \<Rightarrow> Some b)
                 time_estimate start_date
                 (case start_date_time of None \<Rightarrow> None | Some b \<Rightarrow> Some b)
                 assignees_list archived))"

definition delete_clickup_task :: "environ \<Rightarrow> transport \<Rightarrow> string \<Rightarrow> error + json" where
  "delete_clickup_task getenv http task_id =
     (case ClickUpService_init getenv of
        Inl e \<Rightarrow> Inl e
      | Inr clickup \<Rightarrow> delete_task http clickup task_id)"

definition get_clickup_task_by_id :: "environ \<Rightarrow> transport \<Rightarrow> string \<Rightarrow> error + json" where
  "get_clickup_task_by_id getenv http task_id =
     (case ClickUpService_init getenv of
        Inl e \<Rightarrow> Inl e
      | Inr clickup \<Rightarrow> get_task_by_id http clickup task_id)"

text \<open>\<^verbatim>\<open>try: parsed_value = json.loads(value)  except json.JSONDecodeError: parsed_value = value\<close>.
  The handler catches \<^verbatim>\<open>JSONDecodeError\<close> only; any other exception of \<^verbatim>\<open>json.loads\<close>
  leaves the tool.\<close>

definition set_clickup_custom_field_value ::
  "decoder \<Rightarrow> environ \<Rightarrow> transport \<Rightarrow> string \<Rightarrow> string \<Rightarrow> string \<Rightarrow> error + json" where
  "set_clickup_custom_field_value loads getenv http task_id field_id val =
     (case ClickUpService_init getenv of
        Inl e \<Rightarrow> Inl e
      | Inr clickup \<Rightarrow>
          (case (case loads val of
                   Inr v \<Rightarrow> Inr v
                 | Inl (JSONDecodeError m) \<Rightarrow> Inr (JStr val)
                 | Inl e \<Rightarrow> Inl e) of
             Inl e \<Rightarrow> Inl e
           | Inr parsed_value \<Rightarrow>
               set_custom_field_value http clickup task_id field_id parsed_value))"

text \<open>The tools handed to the tool node, by the names \<^verbatim>\<open>@tool\<close> gives them.\<close>

definition tools :: "string list" where
  "tools = [''get_clickup_spaces'', ''get_clickup_lists'', ''get_clickup_tasks'',
            ''create_clickup_task'', ''update_clickup_task'', ''delete_clickup_task'',
            ''get_clickup_task_by_id'', ''set_clickup_custom_field_value'']"

section \<open>The agent state and the workflow graph (sample\_agent/agent.py)\<close>

text \<open>
  A tool call is what \<^verbatim>\<open>response.tool_calls\<close> holds: the name of the requested
  operation, its arguments and the correlation identifier. Only an \<^verbatim>\<open>AIMessage\<close>
  carries tool calls. A tool message carries the result of one tool call, which is the
  output of the tool or the error it ended with, and the identifier of the call.
\<close>

record tool_call =
  tc_name :: string
  tc_args :: dict
  tc_id :: string

datatype message =
    SystemMessage string
  | HumanMessage string
  | AIMessage string "tool_call list"
  | ToolMessage "error + json" string

fun is_AIMessage :: "message \<Rightarrow> bool" where
  "is_AIMessage (AIMessage c tcs) = True"
| "is_AIMessage m = False"

fun tool_calls :: "message \<Rightarrow> tool_call list" where
  "tool_calls (AIMessage c tcs) = tcs"
| "tool_calls m = []"

text \<open>\<^verbatim>\<open>state["copilotkit"]["actions"]\<close>: the actions the caller supplies, each a
  dictionary.\<close>

record copilotkit_properties =
  actions :: "dict list"

record AgentState =
  messages :: "message list"
  copilotkit :: copilotkit_properties
  language :: "string option"
  proverbs :: "string list"
  spaces :: "string list"
  lists' :: "string list"
  tasks :: "string list"

text \<open>The nodes of the graph; \<open>END\<close> is \<^verbatim>\<open>"__end__"\<close>. The specification calls them
  REASONING, DISPATCH and DONE.\<close>

datatype node = chat_node_name | tool_node_name | END

text \<open>A state update is a dictionary from the names of state fields to new values.\<close>

datatype update_value =
    Message message
  | Messages "message list"
  | Strings "string list"

record Command =
  goto :: node
  update :: "(string \<times> update_value) list"

text \<open>What \<^verbatim>\<open>model.bind_tools\<close> receives: the caller's actions, then the eight tools.
  The language model is a parameter: given the bound callables and the message list it
  returns its response, or the exception of the failed call.\<close>

datatype callable = Action dict | Tool string

type_synonym llm = "callable list \<Rightarrow> message list \<Rightarrow> error + message"

definition bound_tools :: "AgentState \<Rightarrow> callable list" where
  "bound_tools state =
     map Action (actions (copilotkit state)) @
     [Tool ''get_clickup_spaces'', Tool ''get_clickup_lists'', Tool ''get_clickup_tasks'',
      Tool ''create_clickup_task'', Tool ''update_clickup_task'', Tool ''delete_clickup_task'',
      Tool ''get_clickup_task_by_id'', Tool ''set_clickup_custom_field_value'']"

definition system_message :: "AgentState \<Rightarrow> message" where
  "system_message state =
     SystemMessage
       (''You are a helpful project management assistant capable of managing tasks in ClickUp. Talk in ''
        @ (case language state of None \<Rightarrow> ''english'' | Some l \<Rightarrow> l) @ ''.'')"

text \<open>Step 4 of the chat node: the model, with the callables bound, is invoked on the
  system message followed by the conversation.\<close>

definition response :: "llm \<Rightarrow> AgentState \<Rightarrow> error + message" where
  "response model state = model (bound_tools state) (system_message state # messages state)"

text \<open>Steps 5 and 6: the routing. \<open>external\<close> is the test
  \<^verbatim>\<open>any(action.get("name") == response.tool_calls[0].get("name") for action in actions)\<close>.
  A tool call always carries its name, so an action without a name matches none.\<close>

definition external :: "dict list \<Rightarrow> tool_call \<Rightarrow> bool" where
  "external acts tc = list_ex (\<lambda>action. dict_get action ''name'' = Some (JStr (tc_name tc))) acts"

definition chat_node :: "llm \<Rightarrow> AgentState \<Rightarrow> error + Command" where
  "chat_node model state =
     (case response model state of
        Inl e \<Rightarrow> Inl e
      | Inr r \<Rightarrow>
          (case (if is_AIMessage r then tool_calls r else []) of
             [] \<Rightarrow> Inr \<lparr>goto = END, update = [(''messages'', Message r)]\<rparr>
           | tc # tcs \<Rightarrow>
               if \<not> external (actions (copilotkit state)) tc
               then Inr \<lparr>goto = tool_node_name, update = [(''messages'', Message r)]\<rparr>
               else Inr \<lparr>goto = END, update = [(''messages'', Message r)]\<rparr>))"

text \<open>
  The tool node is the library's prebuilt \<^verbatim>\<open>ToolNode(tools=tools)\<close>: it reads the tool
  calls of the last message, produces one tool message per call, in order, and returns
  them as an update of \<^verbatim>\<open>messages\<close>. How one call is turned into its tool message
  (running the named tool, or reporting an error) is the parameter \<open>invoke\<close>.
\<close>

definition tool_node :: "(tool_call \<Rightarrow> message) \<Rightarrow> AgentState \<Rightarrow> (string \<times> update_value) list" where
  "tool_node invoke state =
     [(''messages'',
       Messages (map invoke
         (if messages state = [] then [] else tool_calls (last (messages state)))))]"

text \<open>
  Applying an update to the state. \<^verbatim>\<open>messages\<close> has the reducer that appends; the
  other fields of \<open>AgentState\<close> are overwritten by the value written to them.
\<close>

fun apply_update :: "AgentState \<Rightarrow> (string \<times> update_value) list \<Rightarrow> AgentState" where
  "apply_update s [] = s"
| "apply_update s ((k, v) # us) =
     apply_update
       (case v of
          Message m \<Rightarrow> (if k = ''messages'' then s\<lparr>messages := messages s @ [m]\<rparr> else s)
        | Messages ms \<Rightarrow> (if k = ''messages'' then s\<lparr>messages := messages s @ ms\<rparr> else s)
        | Strings xs \<Rightarrow>
            (if k = ''proverbs'' then s\<lparr>proverbs := xs\<rparr>
             else if k = ''spaces'' then s\<lparr>spaces := xs\<rparr>
             else if k = ''lists'' then s\<lparr>lists' := xs\<rparr>
             else if k = ''tasks'' then s\<lparr>tasks := xs\<rparr>
             else s))
       us"

text \<open>
  One turn of the compiled graph: the entry point is the chat node, the chat node names
  its successor in its \<open>Command\<close>, and the edge from the tool node leads back to the chat
  node. The run records the nodes it executes. The model may ask for tools for ever, so
  the run has fuel: \<open>None\<close> is a run that has not reached \<open>END\<close> within the given number
  of node executions.
\<close>

fun run :: "nat \<Rightarrow> llm \<Rightarrow> (tool_call \<Rightarrow> message) \<Rightarrow> node \<Rightarrow> AgentState \<Rightarrow> node list \<Rightarrow>
            (error + AgentState \<times> node list) option" where
  "run fuel model invoke END s trace = Some (Inr (s, trace))"
| "run 0 model invoke chat_node_name s trace = None"
| "run 0 model invoke tool_node_name s trace = None"
| "run (Suc fuel) model invoke chat_node_name s trace =
     (case chat_node model s of
        Inl e \<Rightarrow> Some (Inl e)
      | Inr c \<Rightarrow> run fuel model invoke (goto c) (apply_update s (update c))
                  (trace @ [chat_node_name]))"
| "run (Suc fuel) model invoke tool_node_name s trace =
     run fuel model invoke chat_node_name (apply_update s (tool_node invoke s))
       (trace @ [tool_node_name])"

definition turn :: "nat \<Rightarrow> llm \<Rightarrow> (tool_call \<Rightarrow> message) \<Rightarrow> AgentState \<Rightarrow>
                    (error + AgentState \<times> node list) option" where
  "turn fuel model invoke s = run fuel model invoke chat_node_name s []"

section \<open>The dispatch step\<close>

text \<open>
  Modelled from the spec: the dispatch step, which in the repository is the library's
  \<^verbatim>\<open>ToolNode\<close> together with the \<^verbatim>\<open>@tool\<close> wrappers and has no code under the sources.
  By the specification (sections 4.1, 4.3 and 7) it executes a requested operation of
  the Operation Set on its argument payload after validating the arguments against the
  operation's parameters (name, type, required or optional), and a failure of the
  operation is captured as a tool-invocation result with error content, not as an
  uncaught exception, and returned to the reasoning step. The parameters are those of
  the tools' signatures.
\<close>

datatype kind = KStr | KInt | KBool

fun has_kind :: "kind \<Rightarrow> json \<Rightarrow> bool" where
  "has_kind KStr (JStr s) = True"
| "has_kind KInt (JInt i) = True"
| "has_kind KBool (JBool b) = True"
| "has_kind k v = False"

definition valid_args :: "(string \<times> kind \<times> bool) list \<Rightarrow> dict \<Rightarrow> bool" where
  "valid_args schema args =
     list_all (\<lambda>(k, kd, needed).
        case dict_get args k of
          None \<Rightarrow> \<not> needed
        | Some v \<Rightarrow> if v = JNull then \<not> needed else has_kind kd v) schema"

definition get_str :: "dict \<Rightarrow> string \<Rightarrow> string option" where
  "get_str args k = (case dict_get args k of Some (JStr s) \<Rightarrow> Some s | _ \<Rightarrow> None)"

definition get_int :: "dict \<Rightarrow> string \<Rightarrow> int option" where
  "get_int args k = (case dict_get args k of Some (JInt i) \<Rightarrow> Some i | _ \<Rightarrow> None)"

definition get_bool :: "dict \<Rightarrow> string \<Rightarrow> bool option" where
  "get_bool args k = (case dict_get args k of Some (JBool b) \<Rightarrow> Some b | _ \<Rightarrow> None)"

definition required :: "dict \<Rightarrow> string \<Rightarrow> (string \<Rightarrow> error + json) \<Rightarrow> error + json" where
  "required args k f = (case get_str args k of None \<Rightarrow> Inl (ValidationError k) | Some s \<Rightarrow> f s)"

definition create_clickup_task_schema :: "(string \<times> kind \<times> bool) list" where
  "create_clickup_task_schema =
     [(''list_id'', KStr, True), (''name'', KStr, True), (''description'', KStr, False),
      (''due_date'', KInt, False), (''priority'', KInt, False),
      (''due_date_time'', KBool, False), (''time_estimate'', KInt, False),
      (''start_date'', KInt, False), (''start_date_time'', KBool, False),
      (''assignees'', KStr, False), (''tags'', KStr, False), (''status'', KStr, False)]"

definition update_clickup_task_schema :: "(string \<times> kind \<times> bool) list" where
  "update_clickup_task_schema =
     [(''task_id'', KStr, True), (''name'', KStr, False), (''description'', KStr, False),
      (''status'', KStr, False), (''priority'', KInt, False), (''due_date'', KInt, False),
      (''due_date_time'', KBool, False), (''time_estimate'', KInt, False),
      (''start_date'', KInt, False), (''start_date_time'', KBool, False),
      (''assignees'', KStr, False), (''archived'', KBool, False)]"

definition call_tool :: "decoder \<Rightarrow> environ \<Rightarrow> transport \<Rightarrow> tool_call \<Rightarrow> error + json" where
  "call_tool loads getenv http tc =
     (let name = tc_name tc; args = tc_args tc
      in if name = ''get_clickup_spaces'' then get_clickup_spaces getenv http
         else if name = ''get_clickup_lists'' then
           required args ''space_id'' (\<lambda>space_id. get_clickup_lists getenv http space_id)
         else if name = ''get_clickup_tasks'' then
           required args ''list_id'' (\<lambda>list_id. get_clickup_tasks getenv http list_id)
         else if name = ''create_clickup_task'' then
           (if \<not> valid_args create_clickup_task_schema args then Inl (ValidationError name)
            else
              required args ''list_id'' (\<lambda>list_id.
              required args ''name'' (\<lambda>task_name.
                create_clickup_task loads getenv http list_id task_name
                  (get_str args ''description'') (get_int args ''due_date'')
                  (get_int args ''priority'') (get_bool args ''due_date_time'')
                  (get_int args ''time_estimate'') (get_int args ''start_date'')
                  (get_bool args ''start_date_time'') (get_str args ''assignees'')
                  (get_str args ''tags'') (get_str args ''status''))))
         else if name = ''update_clickup_task'' then
           (if \<not> valid_args update_clickup_task_schema args then Inl (ValidationError name)
            else
              required args ''task_id'' (\<lambda>task_id.
                update_clickup_task loads getenv http task_id
                  (get_str args ''name'') (get_str args ''description'')
                  (get_str args ''status'') (get_int args ''priority'')
                  (get_int args ''due_date'') (get_bool args ''due_date_time'')
                  (get_int args ''time_estimate'') (get_int args ''start_date'')
                  (get_bool args ''start_date_time'') (get_str args ''assignees'')
                  (get_bool args ''archived'')))
         else if name = ''delete_clickup_task'' then
           required args ''task_id'' (\<lambda>task_id. delete_clickup_task getenv http task_id)
         else if name = ''get_clickup_task_by_id'' then
           required args ''task_id'' (\<lambda>task_id. get_clickup_task_by_id getenv http task_id)
         else if name = ''set_clickup_custom_field_value'' then
           required args ''task_id'' (\<lambda>task_id.
           required args ''field_id'' (\<lambda>field_id.
           required args ''value'' (\<lambda>val.
             set_clickup_custom_field_value loads getenv http task_id field_id val)))
         else Inl (ValidationError name))"

text \<open>The tool message for one tool call: the output of the operation, or the error it
  ended with, under the identifier of the call.\<close>

definition dispatch :: "decoder \<Rightarrow> environ \<Rightarrow> transport \<Rightarrow> tool_call \<Rightarrow> message" where
  "dispatch loads getenv http tc = ToolMessage (call_tool loads getenv http tc) (tc_id tc)"

section \<open>Concrete inputs\<close>

text \<open>
  Inputs on which the theorems below are exercised: an environment with both
  configuration values, one without the team identifier, a transport that answers with
  the payload it was sent, and a decoder that answers as \<^verbatim>\<open>json.loads\<close> does on the
  texts used in the examples: \<open>42\<close>, \<open>[123,456]\<close> and \<open>[]\<close> decode, a run of more than
  4300 nines raises \<^verbatim>\<open>ValueError\<close>, and the other texts used (\<open>not json\<close>, \<open>red\<close>, the
  empty text) raise \<^verbatim>\<open>JSONDecodeError\<close>.
\<close>

definition environ_ok :: environ where
  "environ_ok k =
     (if k = ''CLICKUP_API_KEY'' then Some ''pk_81''
      else if k = ''CLICKUP_TEAM_ID'' then Some ''9018'' else None)"

definition environ_no_team :: environ where
  "environ_no_team k = (if k = ''CLICKUP_API_KEY'' then Some ''pk_81'' else None)"

definition service_ok :: ClickUpService where
  "service_ok =
     \<lparr>api_key = ''pk_81'', team_id = ''9018'',
      headers = [(''Authorization'', ''pk_81''), (''Content-Type'', ''application/json''),
                 (''Accept'', ''application/json'')]\<rparr>"

definition echo :: transport where
  "echo rq = Inr (case rq_json rq of None \<Rightarrow> JNull | Some d \<Rightarrow> JObj d)"

definition loads_examples :: decoder where
  "loads_examples s =
     (if 4300 < length s \<and> list_all (\<lambda>c. c = CHR ''9'') s then
        Inl (ValueError ''Exceeds the limit (4300 digits) for integer string conversion'')
      else if s = ''42'' then Inr (JInt 42)
      else if s = ''[123,456]'' then Inr (JArr [JInt 123, JInt 456])
      else if s = ''[]'' then Inr (JArr [])
      else Inl (JSONDecodeError s))"

text \<open>A conversation state with cached spaces, lists and tasks, one externally supplied
  action, and three models: one that answers in plain text, one whose first request is
  the external action and whose second names a local tool, and one that first asks for a
  local tool and answers once the tool result is there.\<close>

definition state0 :: AgentState where
  "state0 =
     \<lparr>messages = [HumanMessage ''which spaces do I have?''],
      copilotkit = \<lparr>actions = [[(''name'', JStr ''showChart''), (''description'', JStr ''draw'')]]\<rparr>,
      language = None,
      proverbs = [''p''], spaces = [''s1'', ''s2''], lists' = [''l1''], tasks = [''t1'']\<rparr>"

definition call_spaces :: tool_call where
  "call_spaces = \<lparr>tc_name = ''get_clickup_spaces'', tc_args = [], tc_id = ''c1''\<rparr>"

definition call_chart :: tool_call where
  "call_chart = \<lparr>tc_name = ''showChart'', tc_args = [], tc_id = ''c0''\<rparr>"

definition call_unknown :: tool_call where
  "call_unknown = \<lparr>tc_name = ''launch'', tc_args = [], tc_id = ''c2''\<rparr>"

definition model_plain :: llm where
  "model_plain cs ms = Inr (AIMessage ''You have two spaces.'' [])"

definition model_external_first :: llm where
  "model_external_first cs ms = Inr (AIMessage [] [call_chart, call_spaces])"

definition model_unknown :: llm where
  "model_unknown cs ms = Inr (AIMessage [] [call_unknown])"

definition model_tool_then_answer :: llm where
  "model_tool_then_answer cs ms =
     (case last ms of
        ToolMessage c i \<Rightarrow> Inr (AIMessage ''You have two spaces.'' [])
      | _ \<Rightarrow> Inr (AIMessage [] [call_spaces]))"

text \<open>Two requests to create a task, one with assignees and one with tags that are not
  JSON, and a model that asks for the first and answers once the tool result is there.\<close>

definition call_create_assignees :: tool_call where
  "call_create_assignees =
     \<lparr>tc_name = ''create_clickup_task'',
      tc_args = [(''list_id'', JStr ''L1''), (''name'', JStr ''Plan''),
                 (''assignees'', JStr ''not json'')],
      tc_id = ''c3''\<rparr>"

definition call_create_tags :: tool_call where
  "call_create_tags =
     \<lparr>tc_name = ''create_clickup_task'',
      tc_args = [(''list_id'', JStr ''L1''), (''name'', JStr ''Plan''),
                 (''tags'', JStr ''not json'')],
      tc_id = ''c4''\<rparr>"

definition model_create_then_answer :: llm where
  "model_create_then_answer cs ms =
     (case last ms of
        ToolMessage c i \<Rightarrow> Inr (AIMessage ''The assignees are not valid JSON.'' [])
      | _ \<Rightarrow> Inr (AIMessage [] [call_create_assignees]))"

definition invoke_stub :: "tool_call \<Rightarrow> message" where
  "invoke_stub tc = ToolMessage (Inr (JObj [])) (tc_id tc)"

section \<open>Properties of the payload construction\<close>

text \<open>Assigning a key that the dictionary does not have yet appends it, so a chain of
  guarded assignments of distinct keys is a filter over the list of candidate entries.\<close>

lemma dict_set_fresh: "k \<notin> fst ` set d \<Longrightarrow> dict_set d k v = d @ [(k, v)]"
  by (induction d) auto

lemma set_if_truthy_filter:
  "k \<notin> fst ` set base \<Longrightarrow> k \<notin> fst ` set xs \<Longrightarrow>
   set_if_truthy k x (base @ filter (\<lambda>kv. truthy (snd kv)) xs)
     = base @ filter (\<lambda>kv. truthy (snd kv)) (xs @ [(k, x)])"
  unfolding set_if_truthy_def
  by (subst dict_set_fresh) (auto simp: image_iff)

lemma set_if_not_None_filter:
  "k \<notin> fst ` set base \<Longrightarrow> k \<notin> fst ` set xs \<Longrightarrow>
   set_if_not_None k x (base @ filter (\<lambda>kv. snd kv \<noteq> JNull) xs)
     = base @ filter (\<lambda>kv. snd kv \<noteq> JNull) (xs @ [(k, x)])"
  unfolding set_if_not_None_def
  by (subst dict_set_fresh) (auto simp: image_iff)

lemma create_task_data_eq:
  "create_task_data name description due_date priority due_date_time time_estimate
     start_date start_date_time assignees tags status custom_fields =
   [(''name'', JStr name), (''due_date_time'', JBool due_date_time),
    (''start_date_time'', JBool start_date_time)] @
   filter (\<lambda>kv. truthy (snd kv))
     [(''description'', of_str description), (''due_date'', of_int due_date),
      (''priority'', of_int priority), (''time_estimate'', of_int time_estimate),
      (''start_date'', of_int start_date), (''assignees'', assignees), (''tags'', tags),
      (''status'', of_str status), (''custom_fields'', custom_fields)]"
proof -
  let ?base = "[(''name'', JStr name), (''due_date_time'', JBool due_date_time),
    (''start_date_time'', JBool start_date_time)]"
  have b: "?base = ?base @ filter (\<lambda>kv. truthy (snd kv)) []" by simp
  show ?thesis
    unfolding create_task_data_def Let_def
    apply (subst b)
    apply (subst set_if_truthy_filter, simp, simp)+
    apply simp
    done
qed


lemma update_task_data_eq:
  "update_task_data name description status priority due_date due_date_time time_estimate
     start_date start_date_time assignees archived =
   filter (\<lambda>kv. truthy (snd kv))
     [(''name'', of_str name), (''description'', of_str description),
      (''status'', of_str status)] @
   filter (\<lambda>kv. snd kv \<noteq> JNull)
     [(''priority'', of_int priority), (''due_date'', of_int due_date),
      (''due_date_time'', of_bool due_date_time), (''time_estimate'', of_int time_estimate),
      (''start_date'', of_int start_date), (''start_date_time'', of_bool start_date_time),
      (''assignees'', assignees), (''archived'', of_bool archived)]"
proof -
  let ?strs = "[(''name'', of_str name), (''description'', of_str description),
      (''status'', of_str status)]"
  have a: "set_if_truthy ''status'' (of_str status)
             (set_if_truthy ''description'' (of_str description)
               (set_if_truthy ''name'' (of_str name) [])) = filter (\<lambda>kv. truthy (snd kv)) ?strs"
    using set_if_truthy_filter [of "''name''" "[]" "[]" "of_str name"]
          set_if_truthy_filter [of "''description''" "[]" "[(''name'', of_str name)]" "of_str description"]
          set_if_truthy_filter [of "''status''" "[]"
             "[(''name'', of_str name), (''description'', of_str description)]" "of_str status"]
    by simp
  have k: "fst ` set (filter (\<lambda>kv. truthy (snd kv)) ?strs) \<subseteq> {''name'', ''description'', ''status''}"
    by auto
  have b: "filter (\<lambda>kv. truthy (snd kv)) ?strs
           = filter (\<lambda>kv. truthy (snd kv)) ?strs @ filter (\<lambda>kv. snd kv \<noteq> JNull) []" by simp
  show ?thesis
    unfolding update_task_data_def Let_def a
    apply (subst b)
    apply (subst set_if_not_None_filter, use k in blast, simp)+
    apply simp
    done
qed

section \<open>Configuration and headers of the service\<close>

lemma ClickUpService_init_cases:
  "ClickUpService_init getenv =
     (case getenv ''CLICKUP_API_KEY'' of
        None \<Rightarrow> Inl (ValueError ''CLICKUP_API_KEY environment variable not set'')
      | Some k \<Rightarrow>
          if k = [] then Inl (ValueError ''CLICKUP_API_KEY environment variable not set'')
          else (case getenv ''CLICKUP_TEAM_ID'' of
                  None \<Rightarrow> Inl (ValueError ''CLICKUP_TEAM_ID environment variable not set'')
                | Some t \<Rightarrow>
                    if t = [] then Inl (ValueError ''CLICKUP_TEAM_ID environment variable not set'')
                    else Inr \<lparr>api_key = k, team_id = t,
                              headers = [(''Authorization'', k),
                                         (''Content-Type'', ''application/json''),
                                         (''Accept'', ''application/json'')]\<rparr>))"
  by (simp add: ClickUpService_init_def of_str_def Let_def split: option.splits)

lemma ClickUpService_init_Inr:
  assumes "ClickUpService_init getenv = Inr self"
  shows "getenv ''CLICKUP_API_KEY'' = Some (api_key self)" and "api_key self \<noteq> []"
    and "getenv ''CLICKUP_TEAM_ID'' = Some (team_id self)" and "team_id self \<noteq> []"
    and "headers self = [(''Authorization'', api_key self),
                         (''Content-Type'', ''application/json''),
                         (''Accept'', ''application/json'')]"
  using assms unfolding ClickUpService_init_cases
  by (auto split: option.splits if_splits)

text \<open>
  Claim C8. Constructing the service without the API key or without the team identifier
  in the environment raises a \<open>ValueError\<close>; with both present (and not empty) the
  constructor succeeds, the instance carries the headers Authorization (the API key),
  Content-Type: application/json and Accept: application/json, and each of the eight
  methods sends its request with exactly the headers of the instance.
\<close>

theorem ClickUpService_config:
  "(getenv ''CLICKUP_API_KEY'' = None \<or> getenv ''CLICKUP_TEAM_ID'' = None \<longrightarrow>
      (\<exists>m. ClickUpService_init getenv = Inl (ValueError m))) \<and>
   (getenv ''CLICKUP_API_KEY'' = Some k \<and> k \<noteq> [] \<and>
    getenv ''CLICKUP_TEAM_ID'' = Some t \<and> t \<noteq> [] \<longrightarrow>
      ClickUpService_init getenv =
        Inr \<lparr>api_key = k, team_id = t,
             headers = [(''Authorization'', k), (''Content-Type'', ''application/json''),
                        (''Accept'', ''application/json'')]\<rparr>) \<and>
   (ClickUpService_init getenv = Inr self \<longrightarrow>
      getenv ''CLICKUP_API_KEY'' = Some (api_key self) \<and>
      headers self = [(''Authorization'', api_key self),
                      (''Content-Type'', ''application/json''),
                      (''Accept'', ''application/json'')] \<and>
      get_spaces http self =
        http \<lparr>rq_method = GET, rq_url = BASE_URL @ ''/team/'' @ team_id self @ ''/space'',
              rq_headers = headers self, rq_json = None\<rparr> \<and>
      get_lists http self space_id =
        http \<lparr>rq_method = GET, rq_url = BASE_URL @ ''/space/'' @ space_id @ ''/list'',
              rq_headers = headers self, rq_json = None\<rparr> \<and>
      get_tasks http self list_id =
        http \<lparr>rq_method = GET, rq_url = BASE_URL @ ''/list/'' @ list_id @ ''/task'',
              rq_headers = headers self, rq_json = None\<rparr> \<and>
      create_task http self list_id name description due_date priority due_date_time
          time_estimate start_date start_date_time assignees tags status custom_fields =
        http \<lparr>rq_method = POST, rq_url = BASE_URL @ ''/list/'' @ list_id @ ''/task'',
              rq_headers = headers self,
              rq_json = Some (create_task_data name description due_date priority
                due_date_time time_estimate start_date start_date_time assignees tags
                status custom_fields)\<rparr> \<and>
      update_task http self task_id name' description status priority due_date due_date_time'
          time_estimate start_date start_date_time' assignees archived =
        http \<lparr>rq_method = PUT, rq_url = BASE_URL @ ''/task/'' @ task_id,
              rq_headers = headers self,
              rq_json = Some (update_task_data name' description status priority due_date
                due_date_time' time_estimate start_date start_date_time' assignees
                archived)\<rparr> \<and>
      delete_task http self task_id =
        http \<lparr>rq_method = DELETE, rq_url = BASE_URL @ ''/task/'' @ task_id,
              rq_headers = headers self, rq_json = None\<rparr> \<and>
      get_task_by_id http self task_id =
        http \<lparr>rq_method = GET, rq_url = BASE_URL @ ''/task/'' @ task_id,
              rq_headers = headers self, rq_json = None\<rparr> \<and>
      set_custom_field_value http self task_id field_id val =
        http \<lparr>rq_method = POST,
              rq_url = BASE_URL @ ''/task/'' @ task_id @ ''/field/'' @ field_id,
              rq_headers = headers self, rq_json = Some [(''value'', val)]\<rparr>)"
proof (intro conjI impI)
  assume "getenv ''CLICKUP_API_KEY'' = None \<or> getenv ''CLICKUP_TEAM_ID'' = None"
  then show "\<exists>m. ClickUpService_init getenv = Inl (ValueError m)"
    unfolding ClickUpService_init_cases by (auto split: option.splits)
next
  assume "getenv ''CLICKUP_API_KEY'' = Some k \<and> k \<noteq> [] \<and>
          getenv ''CLICKUP_TEAM_ID'' = Some t \<and> t \<noteq> []"
  then show "ClickUpService_init getenv =
        Inr \<lparr>api_key = k, team_id = t,
             headers = [(''Authorization'', k), (''Content-Type'', ''application/json''),
                        (''Accept'', ''application/json'')]\<rparr>"
    unfolding ClickUpService_init_cases by simp
next
  assume a: "ClickUpService_init getenv = Inr self"
  show "getenv ''CLICKUP_API_KEY'' = Some (api_key self)"
    by (rule ClickUpService_init_Inr(1) [OF a])
  show "headers self = [(''Authorization'', api_key self),
                      (''Content-Type'', ''application/json''),
                      (''Accept'', ''application/json'')]"
    by (rule ClickUpService_init_Inr(5) [OF a])
qed (simp_all only: get_spaces_def get_lists_def get_tasks_def
       create_task_def update_task_def delete_task_def get_task_by_id_def
       set_custom_field_value_def Let_def)

theorem ClickUpService_config_witness:
  "ClickUpService_init environ_no_team =
     Inl (ValueError ''CLICKUP_TEAM_ID environment variable not set'') \<and>
   ClickUpService_init environ_ok = Inr service_ok \<and>
   get_spaces echo service_ok =
     echo \<lparr>rq_method = GET, rq_url = ''https://api.clickup.com/api/v2/team/9018/space'',
           rq_headers = [(''Authorization'', ''pk_81''), (''Content-Type'', ''application/json''),
                         (''Accept'', ''application/json'')],
           rq_json = None\<rparr>"
proof -
  have none: "environ_no_team ''CLICKUP_API_KEY'' = None \<or> environ_no_team ''CLICKUP_TEAM_ID'' = None"
    by (simp add: environ_no_team_def)
  have some: "environ_ok ''CLICKUP_API_KEY'' = Some ''pk_81'' \<and> ''pk_81'' \<noteq> [] \<and>
              environ_ok ''CLICKUP_TEAM_ID'' = Some ''9018'' \<and> ''9018'' \<noteq> []"
    by (simp add: environ_ok_def)
  have ok: "ClickUpService_init environ_ok = Inr service_ok"
    using ClickUpService_config [of environ_ok "''pk_81''" "''9018''", THEN conjunct2, THEN conjunct1, THEN mp, OF some]
    by (simp add: service_ok_def)
  have "\<exists>m. ClickUpService_init environ_no_team = Inl (ValueError m)"
    by (rule ClickUpService_config [of environ_no_team, THEN conjunct1, THEN mp, OF none])
  then have a: "ClickUpService_init environ_no_team =
     Inl (ValueError ''CLICKUP_TEAM_ID environment variable not set'')"
    by (simp add: ClickUpService_init_cases environ_no_team_def)
  have "get_spaces echo service_ok =
        echo \<lparr>rq_method = GET, rq_url = BASE_URL @ ''/team/'' @ team_id service_ok @ ''/space'',
              rq_headers = headers service_ok, rq_json = None\<rparr>"
    by (rule ClickUpService_config [of environ_ok _ _ service_ok echo, THEN conjunct2, THEN conjunct2,
          THEN mp, OF ok, THEN conjunct2, THEN conjunct2, THEN conjunct1])
  then show ?thesis using a ok by (simp add: service_ok_def BASE_URL_def)
qed

section \<open>The create-task operation\<close>

lemma init_environ_ok: "ClickUpService_init environ_ok = Inr service_ok"
  by (simp add: ClickUpService_init_cases environ_ok_def service_ok_def)

lemma loads_if_cases:
  "loads_if loads x =
     (case x of
        None \<Rightarrow> Inr JNull
      | Some s \<Rightarrow> if s = [] then Inr JNull else loads s)"
  by (simp add: loads_if_def of_str_def split: option.splits)

lemma map_of_filter_snd:
  "distinct (map fst xs) \<Longrightarrow>
   map_of (filter (\<lambda>kv. P (snd kv)) xs) k =
     (case map_of xs k of None \<Rightarrow> None | Some v \<Rightarrow> if P v then Some v else None)"
proof (induction xs)
  case Nil
  then show ?case by simp
next
  case (Cons x xs)
  then have "fst x \<notin> fst ` set xs" by simp
  then have "map_of xs (fst x) = None" by (simp add: map_of_eq_None_iff)
  with Cons show ?case by (cases x) (auto split: option.splits)
qed

lemma create_clickup_task_forward:
  assumes "ClickUpService_init getenv = Inr self"
      and "loads_if loads assignees = Inr a" and "loads_if loads tags = Inr t"
  shows "create_clickup_task loads getenv http list_id name description due_date priority
           due_date_time time_estimate start_date start_date_time assignees tags status =
         http \<lparr>rq_method = POST, rq_url = BASE_URL @ ''/list/'' @ list_id @ ''/task'',
               rq_headers = headers self,
               rq_json = Some (create_task_data name description due_date priority
                 (case due_date_time of None \<Rightarrow> False | Some b \<Rightarrow> b) time_estimate start_date
                 (case start_date_time of None \<Rightarrow> False | Some b \<Rightarrow> b) a t status JNull)\<rparr>"
  using assms by (simp add: create_clickup_task_def create_task_def Let_def)


text \<open>
  Claim C9. The payload of every create-task request holds \<open>name\<close>, \<open>due_date_time\<close> and
  \<open>start_date_time\<close>, in this order, followed by exactly those of description, due\_date,
  priority, time\_estimate, start\_date, assignees, tags, status (and custom\_fields, which
  the tool never passes) whose value is truthy; a falsy value (\<^verbatim>\<open>None\<close>, the empty
  string, the empty list, zero) leaves no entry. Through the tool, the two flags are
  \<open>False\<close> when the caller omits them.
\<close>

theorem create_task_payload_fields:
  "create_task_data name description due_date priority due_date_time time_estimate
     start_date start_date_time assignees tags status custom_fields =
   [(''name'', JStr name), (''due_date_time'', JBool due_date_time),
    (''start_date_time'', JBool start_date_time)] @
   filter (\<lambda>kv. truthy (snd kv))
     [(''description'', of_str description), (''due_date'', of_int due_date),
      (''priority'', of_int priority), (''time_estimate'', of_int time_estimate),
      (''start_date'', of_int start_date), (''assignees'', assignees), (''tags'', tags),
      (''status'', of_str status), (''custom_fields'', custom_fields)] \<and>
   (ClickUpService_init getenv = Inr self \<and>
    loads_if loads assignees_text = Inr a \<and> loads_if loads tags_text = Inr t \<longrightarrow>
    create_clickup_task loads getenv http list_id name description due_date priority
        due_date_time' time_estimate start_date start_date_time' assignees_text tags_text status =
      http \<lparr>rq_method = POST, rq_url = BASE_URL @ ''/list/'' @ list_id @ ''/task'',
            rq_headers = headers self,
            rq_json = Some
              ([(''name'', JStr name),
                (''due_date_time'', JBool (case due_date_time' of None \<Rightarrow> False | Some b \<Rightarrow> b)),
                (''start_date_time'', JBool (case start_date_time' of None \<Rightarrow> False | Some b \<Rightarrow> b))] @
               filter (\<lambda>kv. truthy (snd kv))
                 [(''description'', of_str description), (''due_date'', of_int due_date),
                  (''priority'', of_int priority), (''time_estimate'', of_int time_estimate),
                  (''start_date'', of_int start_date), (''assignees'', a), (''tags'', t),
                  (''status'', of_str status)])\<rparr>)"
proof (intro conjI impI)
  show "create_task_data name description due_date priority due_date_time time_estimate
     start_date start_date_time assignees tags status custom_fields =
   [(''name'', JStr name), (''due_date_time'', JBool due_date_time),
    (''start_date_time'', JBool start_date_time)] @
   filter (\<lambda>kv. truthy (snd kv))
     [(''description'', of_str description), (''due_date'', of_int due_date),
      (''priority'', of_int priority), (''time_estimate'', of_int time_estimate),
      (''start_date'', of_int start_date), (''assignees'', assignees), (''tags'', tags),
      (''status'', of_str status), (''custom_fields'', custom_fields)]"
    by (rule create_task_data_eq)
next
  assume a: "ClickUpService_init getenv = Inr self \<and>
    loads_if loads assignees_text = Inr a \<and> loads_if loads tags_text = Inr t"
  have "create_clickup_task loads getenv http list_id name description due_date priority
        due_date_time' time_estimate start_date start_date_time' assignees_text tags_text status =
         http \<lparr>rq_method = POST, rq_url = BASE_URL @ ''/list/'' @ list_id @ ''/task'',
               rq_headers = headers self,
               rq_json = Some (create_task_data name description due_date priority
                 (case due_date_time' of None \<Rightarrow> False | Some b \<Rightarrow> b) time_estimate start_date
                 (case start_date_time' of None \<Rightarrow> False | Some b \<Rightarrow> b) a t status JNull)\<rparr>"
    using a by (intro create_clickup_task_forward) simp_all
  then show "create_clickup_task loads getenv http list_id name description due_date priority
        due_date_time' time_estimate start_date start_date_time' assignees_text tags_text status =
      http \<lparr>rq_method = POST, rq_url = BASE_URL @ ''/list/'' @ list_id @ ''/task'',
            rq_headers = headers self,
            rq_json = Some
              ([(''name'', JStr name),
                (''due_date_time'', JBool (case due_date_time' of None \<Rightarrow> False | Some b \<Rightarrow> b)),
                (''start_date_time'', JBool (case start_date_time' of None \<Rightarrow> False | Some b \<Rightarrow> b))] @
               filter (\<lambda>kv. truthy (snd kv))
                 [(''description'', of_str description), (''due_date'', of_int due_date),
                  (''priority'', of_int priority), (''time_estimate'', of_int time_estimate),
                  (''start_date'', of_int start_date), (''assignees'', a), (''tags'', t),
                  (''status'', of_str status)])\<rparr>"
    by (simp only: create_task_data_eq) simp
qed

theorem create_task_payload_fields_witness:
  "create_clickup_task loads_examples environ_ok echo ''L1'' ''Write report'' (Some [])
     None (Some 2) None None None None (Some ''[]'') None None =
   Inr (JObj [(''name'', JStr ''Write report''), (''due_date_time'', JBool False),
              (''start_date_time'', JBool False), (''priority'', JInt 2)])"
proof -
  have h: "ClickUpService_init environ_ok = Inr service_ok \<and>
           loads_if loads_examples (Some ''[]'') = Inr (JArr []) \<and>
           loads_if loads_examples None = Inr JNull"
    by (simp add: init_environ_ok loads_if_cases loads_examples_def)
  show ?thesis
    using create_task_payload_fields [where getenv = environ_ok and self = service_ok
            and loads = loads_examples and assignees_text = "Some ''[]''" and a = "JArr []"
            and tags_text = None and t = JNull and http = echo and list_id = "''L1''"
            and name = "''Write report''" and description = "Some []" and due_date = None
            and priority = "Some 2" and due_date_time' = None and time_estimate = None
            and start_date = None and start_date_time' = None and status = None,
          THEN conjunct2, THEN mp, OF h]
    by (simp add: echo_def of_str_def of_int_def)
qed

lemma dict_get_create_task_data_priority:
  "dict_get (create_task_data name description due_date priority due_date_time time_estimate
       start_date start_date_time assignees tags status custom_fields) ''priority'' =
   (if truthy (of_int priority) then Some (of_int priority) else None)"
  unfolding create_task_data_eq dict_get_def
  by (simp add: map_of_filter_snd map_add_def del: filter.simps)


text \<open>
  Claim C7, as the code has it. The create-task operation does not check the priority
  against the set 1, 2, 3, 4: every provided priority other than zero, and so each of
  1 (urgent), 2 (high), 3 (normal) and 4 (low), is passed to the service unchanged and is
  the value of the payload's \<open>priority\<close> field.
\<close>

theorem create_task_priority_forwarded:
  "ClickUpService_init getenv = Inr self \<and>
   loads_if loads assignees = Inr a \<and> loads_if loads tags = Inr t \<and> p \<noteq> 0 \<longrightarrow>
   create_clickup_task loads getenv http list_id name description due_date (Some p)
       due_date_time time_estimate start_date start_date_time assignees tags status =
     http \<lparr>rq_method = POST, rq_url = BASE_URL @ ''/list/'' @ list_id @ ''/task'',
           rq_headers = headers self,
           rq_json = Some (create_task_data name description due_date (Some p)
             (case due_date_time of None \<Rightarrow> False | Some b \<Rightarrow> b) time_estimate start_date
             (case start_date_time of None \<Rightarrow> False | Some b \<Rightarrow> b) a t status JNull)\<rparr> \<and>
   dict_get (create_task_data name description due_date (Some p)
             (case due_date_time of None \<Rightarrow> False | Some b \<Rightarrow> b) time_estimate start_date
             (case start_date_time of None \<Rightarrow> False | Some b \<Rightarrow> b) a t status JNull)
     ''priority'' = Some (JInt p)"
proof (intro impI conjI)
  assume h: "ClickUpService_init getenv = Inr self \<and>
   loads_if loads assignees = Inr a \<and> loads_if loads tags = Inr t \<and> p \<noteq> 0"
  show "create_clickup_task loads getenv http list_id name description due_date (Some p)
       due_date_time time_estimate start_date start_date_time assignees tags status =
     http \<lparr>rq_method = POST, rq_url = BASE_URL @ ''/list/'' @ list_id @ ''/task'',
           rq_headers = headers self,
           rq_json = Some (create_task_data name description due_date (Some p)
             (case due_date_time of None \<Rightarrow> False | Some b \<Rightarrow> b) time_estimate start_date
             (case start_date_time of None \<Rightarrow> False | Some b \<Rightarrow> b) a t status JNull)\<rparr>"
    using h by (intro create_clickup_task_forward) simp_all
  show "dict_get (create_task_data name description due_date (Some p)
             (case due_date_time of None \<Rightarrow> False | Some b \<Rightarrow> b) time_estimate start_date
             (case start_date_time of None \<Rightarrow> False | Some b \<Rightarrow> b) a t status JNull)
     ''priority'' = Some (JInt p)"
    using h by (simp add: dict_get_create_task_data_priority of_int_def)
qed

theorem create_task_priority_forwarded_witness:
  "create_clickup_task loads_examples environ_ok echo ''L1'' ''Fix outage'' None None (Some 1)
     None None None None None None None =
   Inr (JObj [(''name'', JStr ''Fix outage''), (''due_date_time'', JBool False),
              (''start_date_time'', JBool False), (''priority'', JInt 1)]) \<and>
   dict_get (create_task_data ''Fix outage'' None None (Some 1) False None None False
               JNull JNull None JNull) ''priority'' = Some (JInt 1)"
proof -
  have h: "ClickUpService_init environ_ok = Inr service_ok \<and>
           loads_if loads_examples None = Inr JNull \<and>
           loads_if loads_examples None = Inr JNull \<and> (1::int) \<noteq> 0"
    by (simp add: init_environ_ok loads_if_cases)
  show ?thesis
    using create_task_priority_forwarded [where getenv = environ_ok and self = service_ok
            and loads = loads_examples and assignees = None and a = JNull
            and tags = None and t = JNull and p = 1 and http = echo and list_id = "''L1''"
            and name = "''Fix outage''" and description = None and due_date = None
            and due_date_time = None and time_estimate = None
            and start_date = None and start_date_time = None and status = None,
          THEN mp, OF h]
    by (simp add: echo_def create_task_data_eq of_str_def of_int_def)
qed


text \<open>The claim as stated fails: a priority of 7 is not rejected, it is sent.\<close>

theorem create_task_priority_counterexample:
  "create_clickup_task loads_examples environ_ok echo ''L1'' ''Fix outage'' None None (Some 7)
     None None None None None None None =
   Inr (JObj [(''name'', JStr ''Fix outage''), (''due_date_time'', JBool False),
              (''start_date_time'', JBool False), (''priority'', JInt 7)])"
  by (simp add: create_clickup_task_def init_environ_ok loads_if_cases create_task_def
        create_task_data_eq echo_def of_str_def of_int_def)

section \<open>The update-task operation\<close>

lemma update_clickup_task_forward:
  assumes "ClickUpService_init getenv = Inr self" and "loads_if loads assignees = Inr a"
  shows "update_clickup_task loads getenv http task_id name description status priority
           due_date due_date_time time_estimate start_date start_date_time assignees archived =
         http \<lparr>rq_method = PUT, rq_url = BASE_URL @ ''/task/'' @ task_id,
               rq_headers = headers self,
               rq_json = Some (update_task_data name description status priority due_date
                 due_date_time time_estimate start_date start_date_time a archived)\<rparr>"
proof -
  have "(case due_date_time of None \<Rightarrow> None | Some b \<Rightarrow> Some b) = due_date_time"
       "(case start_date_time of None \<Rightarrow> None | Some b \<Rightarrow> Some b) = start_date_time"
    by (simp_all split: option.splits)
  with assms show ?thesis
    by (simp add: update_clickup_task_def update_task_def Let_def)
qed


text \<open>
  Claim C6, as the code has it. The payload of an update-task request holds, in this
  order, exactly: name, description and status when they are provided and not empty;
  priority, due\_date, due\_date\_time, time\_estimate, start\_date, start\_date\_time,
  assignees and archived when they are not \<^verbatim>\<open>None\<close>; and no other field. A call with
  only \<open>status = "done"\<close> sends the payload with the single field status.
\<close>

theorem update_task_payload_fields:
  "update_task_data name description status priority due_date due_date_time time_estimate
     start_date start_date_time assignees archived =
   filter (\<lambda>kv. truthy (snd kv))
     [(''name'', of_str name), (''description'', of_str description),
      (''status'', of_str status)] @
   filter (\<lambda>kv. snd kv \<noteq> JNull)
     [(''priority'', of_int priority), (''due_date'', of_int due_date),
      (''due_date_time'', of_bool due_date_time), (''time_estimate'', of_int time_estimate),
      (''start_date'', of_int start_date), (''start_date_time'', of_bool start_date_time),
      (''assignees'', assignees), (''archived'', of_bool archived)] \<and>
   update_task_data None None (Some ''done'') None None None None None None JNull None =
     [(''status'', JStr ''done'')] \<and>
   (ClickUpService_init getenv = Inr self \<and> loads_if loads assignees_text = Inr assignees \<longrightarrow>
    update_clickup_task loads getenv http task_id name description status priority
        due_date due_date_time time_estimate start_date start_date_time assignees_text archived =
      http \<lparr>rq_method = PUT, rq_url = BASE_URL @ ''/task/'' @ task_id,
            rq_headers = headers self,
            rq_json = Some
              (filter (\<lambda>kv. truthy (snd kv))
                 [(''name'', of_str name), (''description'', of_str description),
                  (''status'', of_str status)] @
               filter (\<lambda>kv. snd kv \<noteq> JNull)
                 [(''priority'', of_int priority), (''due_date'', of_int due_date),
                  (''due_date_time'', of_bool due_date_time),
                  (''time_estimate'', of_int time_estimate),
                  (''start_date'', of_int start_date),
                  (''start_date_time'', of_bool start_date_time),
                  (''assignees'', assignees), (''archived'', of_bool archived)])\<rparr>)"
proof (intro conjI impI)
  show "update_task_data None None (Some ''done'') None None None None None None JNull None =
     [(''status'', JStr ''done'')]"
    by (simp add: update_task_data_eq of_str_def of_int_def of_bool_def)
next
  assume h: "ClickUpService_init getenv = Inr self \<and> loads_if loads assignees_text = Inr assignees"
  have "update_clickup_task loads getenv http task_id name description status priority
        due_date due_date_time time_estimate start_date start_date_time assignees_text archived =
         http \<lparr>rq_method = PUT, rq_url = BASE_URL @ ''/task/'' @ task_id,
               rq_headers = headers self,
               rq_json = Some (update_task_data name description status priority due_date
                 due_date_time time_estimate start_date start_date_time assignees archived)\<rparr>"
    using h by (intro update_clickup_task_forward) simp_all
  then show "update_clickup_task loads getenv http task_id name description status priority
        due_date due_date_time time_estimate start_date start_date_time assignees_text archived =
      http \<lparr>rq_method = PUT, rq_url = BASE_URL @ ''/task/'' @ task_id,
            rq_headers = headers self,
            rq_json = Some
              (filter (\<lambda>kv. truthy (snd kv))
                 [(''name'', of_str name), (''description'', of_str description),
                  (''status'', of_str status)] @
               filter (\<lambda>kv. snd kv \<noteq> JNull)
                 [(''priority'', of_int priority), (''due_date'', of_int due_date),
                  (''due_date_time'', of_bool due_date_time),
                  (''time_estimate'', of_int time_estimate),
                  (''start_date'', of_int start_date),
                  (''start_date_time'', of_bool start_date_time),
                  (''assignees'', assignees), (''archived'', of_bool archived)])\<rparr>"
    by (simp only: update_task_data_eq)
qed (rule update_task_data_eq)

theorem update_task_payload_fields_witness:
  "update_clickup_task loads_examples environ_ok echo ''t9'' None None (Some ''done'') None
     None None None None None None None = Inr (JObj [(''status'', JStr ''done'')])"
proof -
  have h: "ClickUpService_init environ_ok = Inr service_ok \<and>
           loads_if loads_examples None = Inr JNull"
    by (simp add: init_environ_ok loads_if_cases)
  show ?thesis
    using update_task_payload_fields [where getenv = environ_ok and self = service_ok
            and loads = loads_examples and assignees_text = None and assignees = JNull
            and http = echo and task_id = "''t9''" and name = None and description = None
            and status = "Some ''done''" and priority = None and due_date = None
            and due_date_time = None and time_estimate = None and start_date = None
            and start_date_time = None and archived = None,
          THEN conjunct2, THEN conjunct2, THEN mp, OF h]
    by (simp add: echo_def of_str_def of_int_def of_bool_def)
qed


text \<open>The claim as stated fails: a name that is provided as the empty string is not
  part of the payload.\<close>

theorem update_task_payload_counterexample:
  "update_clickup_task loads_examples environ_ok echo ''t9'' (Some []) None None None
     None None None None None None None = Inr (JObj [])"
  by (simp add: update_clickup_task_def init_environ_ok loads_if_cases update_task_def
        update_task_data_eq echo_def of_str_def of_int_def of_bool_def)

section \<open>The turn controller\<close>

lemma apply_update_messages:
  "apply_update s [(''messages'', Message m)] = s\<lparr>messages := messages s @ [m]\<rparr>"
  "apply_update s [(''messages'', Messages ms)] = s\<lparr>messages := messages s @ ms\<rparr>"
  by simp_all

lemma chat_node_cases:
  "chat_node model s =
     (case response model s of
        Inl e \<Rightarrow> Inl e
      | Inr r \<Rightarrow>
          Inr \<lparr>goto = (if tool_calls r \<noteq> [] \<and> \<not> external (actions (copilotkit s)) (hd (tool_calls r))
                        then tool_node_name else END),
               update = [(''messages'', Message r)]\<rparr>)"
  by (cases "response model s"; cases "projr (response model s)")
     (auto simp: chat_node_def split: list.splits)

lemma tool_node_after_chat:
  "tool_node invoke (s\<lparr>messages := messages s @ [r]\<rparr>) =
     [(''messages'', Messages (map invoke (tool_calls r)))]"
  by (simp add: tool_node_def)

lemma response_state0:
  "response model_plain state0 = Inr (AIMessage ''You have two spaces.'' [])"
  "response model_external_first state0 = Inr (AIMessage [] [call_chart, call_spaces])"
  "response model_unknown state0 = Inr (AIMessage [] [call_unknown])"
  "response model_tool_then_answer state0 = Inr (AIMessage [] [call_spaces])"
  by (simp_all add: response_def model_plain_def model_external_first_def model_unknown_def
        model_tool_then_answer_def state0_def system_message_def)

lemma external_state0:
  "external (actions (copilotkit state0)) call_chart"
  "\<not> external (actions (copilotkit state0)) call_unknown"
  "\<not> external (actions (copilotkit state0)) call_spaces"
  by (simp_all add: external_def state0_def dict_get_def call_chart_def call_unknown_def
        call_spaces_def)

lemma apply_update_frame:
  "map fst us = [''messages''] \<Longrightarrow>
   proverbs (apply_update s us) = proverbs s \<and> spaces (apply_update s us) = spaces s \<and>
   lists' (apply_update s us) = lists' s \<and> tasks (apply_update s us) = tasks s \<and>
   copilotkit (apply_update s us) = copilotkit s \<and> language (apply_update s us) = language s"
proof -
  assume "map fst us = [''messages'']"
  then obtain v where "us = [(''messages'', v)]" by (cases us) auto
  then show ?thesis by (cases v) simp_all
qed

lemma chat_node_update_keys:
  "chat_node model s = Inr c \<Longrightarrow> map fst (update c) = [''messages'']"
  by (auto simp: chat_node_cases split: sum.splits)

lemma tool_node_update_keys: "map fst (tool_node invoke s) = [''messages'']"
  by (simp add: tool_node_def)

lemma run_frame:
  "run fuel model invoke n s trace = Some (Inr (s', trace')) \<Longrightarrow>
   proverbs s' = proverbs s \<and> spaces s' = spaces s \<and> lists' s' = lists' s \<and> tasks s' = tasks s"
proof (induction fuel model invoke n s trace rule: run.induct)
  case (1 fuel model invoke s trace)
  then show ?case by simp
next
  case (2 model invoke s trace)
  then show ?case by simp
next
  case (3 model invoke s trace)
  then show ?case by simp
next
  case (4 fuel model invoke s trace)
  from "4.prems" obtain c where c: "chat_node model s = Inr c"
    and r: "run fuel model invoke (goto c) (apply_update s (update c)) (trace @ [chat_node_name])
            = Some (Inr (s', trace'))"
    by (auto split: sum.splits)
  from "4.IH" [OF c r] apply_update_frame [OF chat_node_update_keys [OF c], of s]
  show ?case by simp
next
  case (5 fuel model invoke s trace)
  from "5.prems" have r: "run fuel model invoke chat_node_name
      (apply_update s (tool_node invoke s)) (trace @ [tool_node_name]) = Some (Inr (s', trace'))"
    by simp
  from "5.IH" [OF r] apply_update_frame [OF tool_node_update_keys, of s invoke s]
  show ?case by simp
qed

lemma turn_tool_then_answer:
  "turn 3 model_tool_then_answer invoke_stub state0 =
     Some (Inr (state0\<lparr>messages := messages state0 @
                  [AIMessage [] [call_spaces], ToolMessage (Inr (JObj [])) ''c1'',
                   AIMessage ''You have two spaces.'' []]\<rparr>,
                [chat_node_name, tool_node_name, chat_node_name]))"
proof -
  let ?s1 = "state0\<lparr>messages := messages state0 @ [AIMessage [] [call_spaces]]\<rparr>"
  let ?s2 = "state0\<lparr>messages := messages state0 @
               [AIMessage [] [call_spaces], ToolMessage (Inr (JObj [])) ''c1'']\<rparr>"
  have r1: "response model_tool_then_answer state0 = Inr (AIMessage [] [call_spaces])"
    by (simp add: response_def model_tool_then_answer_def state0_def system_message_def)
  have c1: "chat_node model_tool_then_answer state0 =
              Inr \<lparr>goto = tool_node_name, update = [(''messages'', Message (AIMessage [] [call_spaces]))]\<rparr>"
    by (simp add: chat_node_cases r1 external_state0)
  have t1: "apply_update ?s1 (tool_node invoke_stub ?s1) = ?s2"
    by (simp add: tool_node_after_chat invoke_stub_def call_spaces_def)
  have r2: "response model_tool_then_answer ?s2 = Inr (AIMessage ''You have two spaces.'' [])"
    by (simp add: response_def model_tool_then_answer_def state0_def)
  have c2: "chat_node model_tool_then_answer ?s2 =
              Inr \<lparr>goto = END, update = [(''messages'', Message (AIMessage ''You have two spaces.'' []))]\<rparr>"
    by (simp add: chat_node_cases r2)
  let ?s3 = "state0\<lparr>messages := messages state0 @
                  [AIMessage [] [call_spaces], ToolMessage (Inr (JObj [])) ''c1'',
                   AIMessage ''You have two spaces.'' []]\<rparr>"
  have a1: "apply_update state0 [(''messages'', Message (AIMessage [] [call_spaces]))] = ?s1"
    by simp
  have a3: "apply_update ?s2 [(''messages'', Message (AIMessage ''You have two spaces.'' []))] = ?s3"
    by simp
  have "run (Suc (Suc (Suc 0))) model_tool_then_answer invoke_stub chat_node_name state0 [] =
        run (Suc (Suc 0)) model_tool_then_answer invoke_stub tool_node_name ?s1 [chat_node_name]"
    by (simp only: run.simps c1 sum.case Command.simps a1 append_Nil)
  also have "\<dots> = run (Suc 0) model_tool_then_answer invoke_stub chat_node_name ?s2
                     [chat_node_name, tool_node_name]"
    by (simp only: run.simps t1 append_Cons append_Nil)
  also have "\<dots> = run 0 model_tool_then_answer invoke_stub END ?s3
                     [chat_node_name, tool_node_name, chat_node_name]"
    by (simp only: run.simps c2 sum.case Command.simps a3 append_Cons append_Nil)
  also have "\<dots> = Some (Inr (?s3, [chat_node_name, tool_node_name, chat_node_name]))"
    by (simp only: run.simps)
  finally have "run (Suc (Suc (Suc 0))) model_tool_then_answer invoke_stub chat_node_name state0 [] =
        Some (Inr (?s3, [chat_node_name, tool_node_name, chat_node_name]))" .
  then show ?thesis by (simp add: turn_def numeral_3_eq_3)
qed

text \<open>
  Claim C1. When the first tool call of the model's response names an externally supplied
  action, the chat node routes to \<open>END\<close>, whatever the later tool calls of the same
  message name: the turn consists of the one execution of the chat node, the tool node
  is not executed, and the response is appended to the messages as it is.
\<close>

theorem first_call_external_halts:
  "response model s = Inr r \<and> tool_calls r = tc # tcs \<and>
   external (actions (copilotkit s)) tc \<longrightarrow>
   chat_node model s = Inr \<lparr>goto = END, update = [(''messages'', Message r)]\<rparr> \<and>
   turn (Suc fuel) model invoke s =
     Some (Inr (s\<lparr>messages := messages s @ [r]\<rparr>, [chat_node_name]))"
proof (intro impI)
  assume h: "response model s = Inr r \<and> tool_calls r = tc # tcs \<and>
             external (actions (copilotkit s)) tc"
  then have ai: "is_AIMessage r" by (cases r) simp_all
  have c: "chat_node model s = Inr \<lparr>goto = END, update = [(''messages'', Message r)]\<rparr>"
    using h ai by (simp add: chat_node_def)
  have "run (Suc fuel) model invoke chat_node_name s [] =
        run fuel model invoke END (s\<lparr>messages := messages s @ [r]\<rparr>) [chat_node_name]"
    by (simp add: c)
  also have "\<dots> = Some (Inr (s\<lparr>messages := messages s @ [r]\<rparr>, [chat_node_name]))"
    by simp
  finally show "chat_node model s = Inr \<lparr>goto = END, update = [(''messages'', Message r)]\<rparr> \<and>
     turn (Suc fuel) model invoke s =
       Some (Inr (s\<lparr>messages := messages s @ [r]\<rparr>, [chat_node_name]))"
    using c by (simp add: turn_def)
qed

theorem first_call_external_halts_witness:
  "tc_name call_spaces \<in> set tools \<and>
   turn 5 model_external_first invoke_stub state0 =
     Some (Inr (state0\<lparr>messages := messages state0 @ [AIMessage [] [call_chart, call_spaces]]\<rparr>,
                [chat_node_name]))"
proof -
  have h: "response model_external_first state0 = Inr (AIMessage [] [call_chart, call_spaces]) \<and>
           tool_calls (AIMessage [] [call_chart, call_spaces]) = call_chart # [call_spaces] \<and>
           external (actions (copilotkit state0)) call_chart"
    by (simp add: response_state0 external_state0)
  have "turn (Suc 4) model_external_first invoke_stub state0 =
     Some (Inr (state0\<lparr>messages := messages state0 @ [AIMessage [] [call_chart, call_spaces]]\<rparr>,
                [chat_node_name]))"
    by (rule first_call_external_halts [where fuel = 4, THEN mp, OF h, THEN conjunct2])
  then show ?thesis by (simp add: call_spaces_def tools_def)
qed

text \<open>
  Claim C3. When the model's response carries no tool call, the turn ends after exactly
  one execution of the chat node and none of the tool node, for every conversation state
  and every positive amount of fuel, and the state at the end is the state at the start
  with the response appended to the messages.
\<close>

theorem no_tool_calls_one_step:
  "response model s = Inr r \<and> tool_calls r = [] \<longrightarrow>
   chat_node model s = Inr \<lparr>goto = END, update = [(''messages'', Message r)]\<rparr> \<and>
   turn (Suc fuel) model invoke s =
     Some (Inr (s\<lparr>messages := messages s @ [r]\<rparr>, [chat_node_name]))"
proof (intro impI)
  assume h: "response model s = Inr r \<and> tool_calls r = []"
  then have "(if is_AIMessage r then tool_calls r else []) = []" by simp
  with h have c: "chat_node model s = Inr \<lparr>goto = END, update = [(''messages'', Message r)]\<rparr>"
    by (simp add: chat_node_def)
  have "run (Suc fuel) model invoke chat_node_name s [] =
        run fuel model invoke END (s\<lparr>messages := messages s @ [r]\<rparr>) [chat_node_name]"
    by (simp add: c)
  also have "\<dots> = Some (Inr (s\<lparr>messages := messages s @ [r]\<rparr>, [chat_node_name]))"
    by simp
  finally show "chat_node model s = Inr \<lparr>goto = END, update = [(''messages'', Message r)]\<rparr> \<and>
     turn (Suc fuel) model invoke s =
       Some (Inr (s\<lparr>messages := messages s @ [r]\<rparr>, [chat_node_name]))"
    using c by (simp add: turn_def)
qed

theorem no_tool_calls_one_step_witness:
  "turn 1 model_plain invoke_stub state0 =
     Some (Inr (state0\<lparr>messages := messages state0 @ [AIMessage ''You have two spaces.'' []]\<rparr>,
                [chat_node_name]))"
proof -
  have h: "response model_plain state0 = Inr (AIMessage ''You have two spaces.'' []) \<and>
           tool_calls (AIMessage ''You have two spaces.'' []) = []"
    by (simp add: response_state0)
  show ?thesis
    using no_tool_calls_one_step [where fuel = 0, THEN mp, OF h, THEN conjunct2] by simp
qed

text \<open>
  Claim C2, as the code has it. The chat node routes to the tool node exactly when the
  response carries at least one tool call and the name of the first one matches none of
  the externally supplied actions, and to \<open>END\<close> otherwise; the tools of the agent are
  not consulted. In the first case the tool node runs next, on all tool calls of the
  response, and hands control back to the chat node.
\<close>

theorem dispatch_iff_first_call_not_external:
  "response model s = Inr r \<longrightarrow>
   (\<exists>c. chat_node model s = Inr c \<and> update c = [(''messages'', Message r)] \<and>
        (goto c = tool_node_name \<longleftrightarrow>
           tool_calls r \<noteq> [] \<and> \<not> external (actions (copilotkit s)) (hd (tool_calls r))) \<and>
        (goto c = END \<longleftrightarrow>
           tool_calls r = [] \<or> external (actions (copilotkit s)) (hd (tool_calls r)))) \<and>
   (tool_calls r \<noteq> [] \<and> \<not> external (actions (copilotkit s)) (hd (tool_calls r)) \<longrightarrow>
      turn (Suc (Suc fuel)) model invoke s =
        run fuel model invoke chat_node_name
          (s\<lparr>messages := messages s @ [r] @ map invoke (tool_calls r)\<rparr>)
          [chat_node_name, tool_node_name])"
proof (intro impI conjI)
  assume r: "response model s = Inr r"
  let ?dispatch = "tool_calls r \<noteq> [] \<and> \<not> external (actions (copilotkit s)) (hd (tool_calls r))"
  let ?c = "\<lparr>goto = (if ?dispatch then tool_node_name else END),
             update = [(''messages'', Message r)]\<rparr>"
  have c: "chat_node model s = Inr ?c"
    using r by (simp add: chat_node_cases)
  have "update ?c = [(''messages'', Message r)]"
    and "goto ?c = tool_node_name \<longleftrightarrow> ?dispatch"
    and "goto ?c = END \<longleftrightarrow> tool_calls r = [] \<or> external (actions (copilotkit s)) (hd (tool_calls r))"
    by simp_all
  with c show "\<exists>c. chat_node model s = Inr c \<and> update c = [(''messages'', Message r)] \<and>
        (goto c = tool_node_name \<longleftrightarrow>
           tool_calls r \<noteq> [] \<and> \<not> external (actions (copilotkit s)) (hd (tool_calls r))) \<and>
        (goto c = END \<longleftrightarrow>
           tool_calls r = [] \<or> external (actions (copilotkit s)) (hd (tool_calls r)))"
    by blast
  assume d: ?dispatch
  have "run (Suc (Suc fuel)) model invoke chat_node_name s [] =
        run (Suc fuel) model invoke tool_node_name (s\<lparr>messages := messages s @ [r]\<rparr>)
          [chat_node_name]"
    using c d by simp
  also have "\<dots> = run fuel model invoke chat_node_name
          (s\<lparr>messages := messages s @ [r] @ map invoke (tool_calls r)\<rparr>)
          [chat_node_name, tool_node_name]"
    by (simp add: tool_node_after_chat)
  finally show "turn (Suc (Suc fuel)) model invoke s =
        run fuel model invoke chat_node_name
          (s\<lparr>messages := messages s @ [r] @ map invoke (tool_calls r)\<rparr>)
          [chat_node_name, tool_node_name]"
    by (simp add: turn_def)
qed

theorem dispatch_iff_first_call_not_external_witness:
  "chat_node model_unknown state0 =
     Inr \<lparr>goto = tool_node_name, update = [(''messages'', Message (AIMessage [] [call_unknown]))]\<rparr> \<and>
   chat_node model_external_first state0 =
     Inr \<lparr>goto = END,
          update = [(''messages'', Message (AIMessage [] [call_chart, call_spaces]))]\<rparr> \<and>
   turn 3 model_tool_then_answer invoke_stub state0 =
     run 1 model_tool_then_answer invoke_stub chat_node_name
       (state0\<lparr>messages := messages state0 @
          [AIMessage [] [call_spaces], ToolMessage (Inr (JObj [])) ''c1'']\<rparr>)
       [chat_node_name, tool_node_name]"
proof -
  have n: "tool_calls (AIMessage [] [call_spaces]) \<noteq> [] \<and>
           \<not> external (actions (copilotkit state0)) (hd (tool_calls (AIMessage [] [call_spaces])))"
    by (simp add: external_state0)
  have t: "turn (Suc (Suc 1)) model_tool_then_answer invoke_stub state0 =
        run 1 model_tool_then_answer invoke_stub chat_node_name
          (state0\<lparr>messages := messages state0 @ [AIMessage [] [call_spaces]] @
             map invoke_stub (tool_calls (AIMessage [] [call_spaces]))\<rparr>)
          [chat_node_name, tool_node_name]"
    by (rule dispatch_iff_first_call_not_external [where model = model_tool_then_answer
          and s = state0 and fuel = 1 and invoke = invoke_stub,
          THEN mp, OF response_state0(4), THEN conjunct2, THEN mp, OF n])
  have t': "turn 3 model_tool_then_answer invoke_stub state0 =
     run 1 model_tool_then_answer invoke_stub chat_node_name
       (state0\<lparr>messages := messages state0 @
          [AIMessage [] [call_spaces], ToolMessage (Inr (JObj [])) ''c1'']\<rparr>)
       [chat_node_name, tool_node_name]"
    using t by (simp add: invoke_stub_def call_spaces_def numeral_3_eq_3)
  obtain c where c: "chat_node model_unknown state0 = Inr c"
      "update c = [(''messages'', Message (AIMessage [] [call_unknown]))]"
      "goto c = tool_node_name \<longleftrightarrow>
         tool_calls (AIMessage [] [call_unknown]) \<noteq> [] \<and>
         \<not> external (actions (copilotkit state0)) (hd (tool_calls (AIMessage [] [call_unknown])))"
    using dispatch_iff_first_call_not_external [where model = model_unknown and s = state0,
            THEN mp, OF response_state0(3), THEN conjunct1]
    by blast
  obtain d where d: "chat_node model_external_first state0 = Inr d"
      "update d = [(''messages'', Message (AIMessage [] [call_chart, call_spaces]))]"
      "goto d = END \<longleftrightarrow>
         tool_calls (AIMessage [] [call_chart, call_spaces]) = [] \<or>
         external (actions (copilotkit state0))
             (hd (tool_calls (AIMessage [] [call_chart, call_spaces])))"
    using dispatch_iff_first_call_not_external [where model = model_external_first and s = state0,
            THEN mp, OF response_state0(2), THEN conjunct1]
    by blast
  from c(3) have "goto c = tool_node_name" by (simp add: external_state0)
  moreover from d(3) have "goto d = END" by (simp add: external_state0)
  ultimately show ?thesis using c(1,2) d(1,2) t' by simp
qed

text \<open>The claim as stated fails: a first tool call whose name is neither a tool of the
  agent nor an externally supplied action is routed to the tool node.\<close>

theorem dispatch_unknown_name_counterexample:
  "tc_name call_unknown \<notin> set tools \<and>
   \<not> external (actions (copilotkit state0)) call_unknown \<and>
   chat_node model_unknown state0 =
     Inr \<lparr>goto = tool_node_name, update = [(''messages'', Message (AIMessage [] [call_unknown]))]\<rparr>"
proof -
  have "tc_name call_unknown \<notin> set tools"
    by (simp add: call_unknown_def tools_def)
  then show ?thesis
    by (simp add: chat_node_cases response_state0 external_state0)
qed

text \<open>
  Claim C10. The update returned by the chat node, in either outcome, and the update
  returned by the tool node have the single key \<open>messages\<close>; hence whenever a run of the
  graph ends, from any node and any state, the fields proverbs, spaces, lists and tasks
  are what they were at the start.
\<close>

theorem cached_fields_never_written:
  "(chat_node model s = Inr c \<longrightarrow> map fst (update c) = [''messages'']) \<and>
   map fst (tool_node invoke s) = [''messages''] \<and>
   (run fuel model invoke n s trace = Some (Inr (s', trace')) \<longrightarrow>
      proverbs s' = proverbs s \<and> spaces s' = spaces s \<and> lists' s' = lists' s \<and>
      tasks s' = tasks s)"
  using chat_node_update_keys tool_node_update_keys run_frame by blast

theorem cached_fields_never_written_witness:
  "map fst (update \<lparr>goto = END,
                    update = [(''messages'', Message (AIMessage ''You have two spaces.'' []))]\<rparr>)
     = [''messages''] \<and>
   map fst (tool_node invoke_stub state0) = [''messages''] \<and>
   turn 3 model_tool_then_answer invoke_stub state0 =
     Some (Inr (state0\<lparr>messages := messages state0 @
                  [AIMessage [] [call_spaces], ToolMessage (Inr (JObj [])) ''c1'',
                   AIMessage ''You have two spaces.'' []]\<rparr>,
                [chat_node_name, tool_node_name, chat_node_name])) \<and>
   spaces (state0\<lparr>messages := messages state0 @
                  [AIMessage [] [call_spaces], ToolMessage (Inr (JObj [])) ''c1'',
                   AIMessage ''You have two spaces.'' []]\<rparr>) = [''s1'', ''s2'']"
proof -
  let ?s' = "state0\<lparr>messages := messages state0 @
                  [AIMessage [] [call_spaces], ToolMessage (Inr (JObj [])) ''c1'',
                   AIMessage ''You have two spaces.'' []]\<rparr>"
  let ?c = "\<lparr>goto = END,
             update = [(''messages'', Message (AIMessage ''You have two spaces.'' []))]\<rparr>"
  have c: "chat_node model_plain state0 = Inr ?c"
    by (simp add: chat_node_cases response_state0)
  have k: "map fst (update ?c) = [''messages'']"
    by (rule cached_fields_never_written [where model = model_plain and s = state0,
          THEN conjunct1, THEN mp, OF c])
  have k': "map fst (tool_node invoke_stub state0) = [''messages'']"
    by (rule cached_fields_never_written [THEN conjunct2, THEN conjunct1])
  have r: "run 3 model_tool_then_answer invoke_stub chat_node_name state0 [] =
           Some (Inr (?s', [chat_node_name, tool_node_name, chat_node_name]))"
    using turn_tool_then_answer by (simp add: turn_def)
  have "spaces ?s' = spaces state0"
    using cached_fields_never_written [where fuel = 3 and model = model_tool_then_answer
            and invoke = invoke_stub and n = chat_node_name and s = state0 and trace = "[]"
            and s' = ?s' and trace' = "[chat_node_name, tool_node_name, chat_node_name]",
            THEN conjunct2, THEN conjunct2, THEN mp, OF r]
    by simp
  then have "spaces ?s' = [''s1'', ''s2'']" by (simp add: state0_def)
  with k k' turn_tool_then_answer show ?thesis by (simp only: simp_thms)
qed

section \<open>The set-custom-field operation\<close>

text \<open>Once the service is constructed, the tool has three outcomes, by what
  \<^verbatim>\<open>json.loads\<close> does on the text: it decodes and the decoded object is sent; it raises
  \<^verbatim>\<open>JSONDecodeError\<close> and the text itself is sent as a string; it raises another
  exception, which the handler does not catch, and nothing is sent.\<close>

lemma set_clickup_custom_field_value_outcomes:
  assumes "ClickUpService_init getenv = Inr self"
  shows "set_clickup_custom_field_value loads getenv http task_id field_id val =
     (case loads val of
        Inr v \<Rightarrow>
          http \<lparr>rq_method = POST,
                rq_url = BASE_URL @ ''/task/'' @ task_id @ ''/field/'' @ field_id,
                rq_headers = headers self, rq_json = Some [(''value'', v)]\<rparr>
      | Inl (JSONDecodeError m) \<Rightarrow>
          http \<lparr>rq_method = POST,
                rq_url = BASE_URL @ ''/task/'' @ task_id @ ''/field/'' @ field_id,
                rq_headers = headers self, rq_json = Some [(''value'', JStr val)]\<rparr>
      | Inl e \<Rightarrow> Inl e)"
  using assms
  by (simp add: set_clickup_custom_field_value_def set_custom_field_value_def
        split: sum.splits error.splits)

lemma loads_examples_nines:
  "loads_examples (replicate 4301 (CHR ''9'')) =
     Inl (ValueError ''Exceeds the limit (4300 digits) for integer string conversion'')"
  by (simp add: loads_examples_def list_all_iff)

text \<open>
  Claim C5 at a failing input. The claim promises, for every text, that a failure to
  decode is never an error and that the decoded object or the text itself is
  forwarded. On a text of 4301 nines \<^verbatim>\<open>json.loads\<close> raises \<^verbatim>\<open>ValueError\<close>, which is not
  a \<^verbatim>\<open>JSONDecodeError\<close>: the tool ends with that exception, whatever the transport, and
  forwards neither form.
\<close>

theorem set_custom_field_value_uncaught_error:
  "loads_examples (replicate 4301 (CHR ''9'')) =
     Inl (ValueError ''Exceeds the limit (4300 digits) for integer string conversion'') \<and>
   set_clickup_custom_field_value loads_examples environ_ok http ''t9'' ''f3''
     (replicate 4301 (CHR ''9'')) =
     Inl (ValueError ''Exceeds the limit (4300 digits) for integer string conversion'')"
  using set_clickup_custom_field_value_outcomes [OF init_environ_ok, of loads_examples http
          "''t9''" "''f3''" "replicate 4301 (CHR ''9'')"]
  by (simp add: loads_examples_nines)

section \<open>Assignees and tags of the create-task operation\<close>

lemma dict_get_create_task_data_assignees:
  "dict_get (create_task_data name description due_date priority due_date_time time_estimate
       start_date start_date_time assignees tags status custom_fields) ''assignees'' =
   (if truthy assignees then Some assignees else None)"
  unfolding create_task_data_eq dict_get_def
  by (simp add: map_of_filter_snd map_add_def del: filter.simps)

lemma dict_get_create_task_data_tags:
  "dict_get (create_task_data name description due_date priority due_date_time time_estimate
       start_date start_date_time assignees tags status custom_fields) ''tags'' =
   (if truthy tags then Some tags else None)"
  unfolding create_task_data_eq dict_get_def
  by (simp add: map_of_filter_snd map_add_def del: filter.simps)

text \<open>
  Claim C4, as the code has it. An assignees or tags text that is provided and not empty
  is decoded before anything is forwarded: when it decodes, the decoded object is what the
  service receives and, when truthy, what the payload holds; when \<^verbatim>\<open>json.loads\<close> raises,
  the tool ends with that exception (after the configuration error, if the service cannot
  be constructed) and no request is sent, so the text itself is never passed through. In
  the dispatch step such a call yields a tool message with that error as its content, and
  the run goes on to the chat node. An absent or empty text is not decoded at all: the
  service receives \<^verbatim>\<open>None\<close> for it and there is no error.
\<close>

theorem create_task_parses_assignees_and_tags:
  fixes loads :: decoder and http :: transport and getenv :: environ
    and list_id name :: string and description status :: "string option"
    and due_date priority time_estimate start_date :: "int option"
    and due_date_time start_date_time :: "bool option"
  defines "result \<equiv> \<lambda>assignees tags.
     create_clickup_task loads getenv http list_id name description due_date priority
       due_date_time time_estimate start_date start_date_time assignees tags status"
    and "sent \<equiv> \<lambda>a t.
     create_task_data name description due_date priority
       (case due_date_time of None \<Rightarrow> False | Some b \<Rightarrow> b) time_estimate start_date
       (case start_date_time of None \<Rightarrow> False | Some b \<Rightarrow> b) a t status JNull"
  shows
  "(s \<noteq> [] \<and> loads s = Inr a \<and> loads_if loads tags = Inr t \<longrightarrow>
      result (Some s) tags =
        (case ClickUpService_init getenv of
           Inl c \<Rightarrow> Inl c
         | Inr self \<Rightarrow>
             http \<lparr>rq_method = POST, rq_url = BASE_URL @ ''/list/'' @ list_id @ ''/task'',
                     rq_headers = headers self, rq_json = Some (sent a t)\<rparr>) \<and>
      dict_get (sent a t) ''assignees'' = (if truthy a then Some a else None)) \<and>
   (loads_if loads assignees = Inr a \<and> s \<noteq> [] \<and> loads s = Inr t \<longrightarrow>
      result assignees (Some s) =
        (case ClickUpService_init getenv of
           Inl c \<Rightarrow> Inl c
         | Inr self \<Rightarrow>
             http \<lparr>rq_method = POST, rq_url = BASE_URL @ ''/list/'' @ list_id @ ''/task'',
                     rq_headers = headers self, rq_json = Some (sent a t)\<rparr>) \<and>
      dict_get (sent a t) ''tags'' = (if truthy t then Some t else None)) \<and>
   (s \<noteq> [] \<and> loads s = Inl e \<longrightarrow>
      result (Some s) tags = (case ClickUpService_init getenv of Inl c \<Rightarrow> Inl c | Inr self \<Rightarrow> Inl e)) \<and>
   (loads_if loads assignees = Inr a \<and> s \<noteq> [] \<and> loads s = Inl e \<longrightarrow>
      result assignees (Some s) = (case ClickUpService_init getenv of Inl c \<Rightarrow> Inl c | Inr self \<Rightarrow> Inl e)) \<and>
   (tc_name tc = ''create_clickup_task'' \<and>
    valid_args create_clickup_task_schema (tc_args tc) \<and>
    get_str (tc_args tc) ''list_id'' = Some l \<and> get_str (tc_args tc) ''name'' = Some n \<and>
    get_str (tc_args tc) ''assignees'' = Some s \<and> s \<noteq> [] \<and> loads s = Inl e \<and>
    messages st \<noteq> [] \<and> last (messages st) = AIMessage content [tc] \<longrightarrow>
      dispatch loads getenv http tc = ToolMessage (Inl (case ClickUpService_init getenv of Inl c \<Rightarrow> c | Inr self \<Rightarrow> e)) (tc_id tc) \<and>
      run (Suc fuel) model (dispatch loads getenv http) tool_node_name st trace =
        run fuel model (dispatch loads getenv http) chat_node_name
          (st\<lparr>messages := messages st @ [ToolMessage (Inl (case ClickUpService_init getenv of Inl c \<Rightarrow> c | Inr self \<Rightarrow> e)) (tc_id tc)]\<rparr>)
          (trace @ [tool_node_name])) \<and>
   (tc_name tc = ''create_clickup_task'' \<and>
    valid_args create_clickup_task_schema (tc_args tc) \<and>
    get_str (tc_args tc) ''list_id'' = Some l \<and> get_str (tc_args tc) ''name'' = Some n \<and>
    loads_if loads (get_str (tc_args tc) ''assignees'') = Inr a \<and>
    get_str (tc_args tc) ''tags'' = Some s \<and> s \<noteq> [] \<and> loads s = Inl e \<and>
    messages st \<noteq> [] \<and> last (messages st) = AIMessage content [tc] \<longrightarrow>
      dispatch loads getenv http tc = ToolMessage (Inl (case ClickUpService_init getenv of Inl c \<Rightarrow> c | Inr self \<Rightarrow> e)) (tc_id tc) \<and>
      run (Suc fuel) model (dispatch loads getenv http) tool_node_name st trace =
        run fuel model (dispatch loads getenv http) chat_node_name
          (st\<lparr>messages := messages st @ [ToolMessage (Inl (case ClickUpService_init getenv of Inl c \<Rightarrow> c | Inr self \<Rightarrow> e)) (tc_id tc)]\<rparr>)
          (trace @ [tool_node_name])) \<and>
   (loads_if loads assignees = Inr a \<and> loads_if loads tags = Inr t \<and>
    (absent = None \<or> absent = Some []) \<longrightarrow>
      result absent tags =
        (case ClickUpService_init getenv of
           Inl c \<Rightarrow> Inl c
         | Inr self \<Rightarrow>
             http \<lparr>rq_method = POST, rq_url = BASE_URL @ ''/list/'' @ list_id @ ''/task'',
                     rq_headers = headers self, rq_json = Some (sent JNull t)\<rparr>) \<and>
      result assignees absent =
        (case ClickUpService_init getenv of
           Inl c \<Rightarrow> Inl c
         | Inr self \<Rightarrow>
             http \<lparr>rq_method = POST, rq_url = BASE_URL @ ''/list/'' @ list_id @ ''/task'',
                     rq_headers = headers self, rq_json = Some (sent a JNull)\<rparr>))"
proof -
  have fwd: "result x y =
      (case ClickUpService_init getenv of
         Inl c \<Rightarrow> Inl c
       | Inr self \<Rightarrow>
           http \<lparr>rq_method = POST, rq_url = BASE_URL @ ''/list/'' @ list_id @ ''/task'',
                 rq_headers = headers self, rq_json = Some (sent u v)\<rparr>)"
    if "loads_if loads x = Inr u" and "loads_if loads y = Inr v" for x y u v
    using that
    by (simp add: result_def sent_def create_clickup_task_def create_task_def
          split: sum.splits)
  have err1: "result (Some s) y =
      (case ClickUpService_init getenv of Inl c \<Rightarrow> Inl c | Inr self \<Rightarrow> Inl e)"
    if "s \<noteq> []" and "loads s = Inl e" for y
    using that
    by (simp add: result_def create_clickup_task_def loads_if_cases split: sum.splits)
  have err2: "result x (Some s) =
      (case ClickUpService_init getenv of Inl c \<Rightarrow> Inl c | Inr self \<Rightarrow> Inl e)"
    if "loads_if loads x = Inr a" and "s \<noteq> []" and "loads s = Inl e" for x
    using that
    by (simp add: result_def create_clickup_task_def loads_if_cases [of _ "Some s"]
          split: sum.splits)
  have call: "call_tool loads getenv http tc =
      create_clickup_task loads getenv http l n
        (get_str (tc_args tc) ''description'') (get_int (tc_args tc) ''due_date'')
        (get_int (tc_args tc) ''priority'') (get_bool (tc_args tc) ''due_date_time'')
        (get_int (tc_args tc) ''time_estimate'') (get_int (tc_args tc) ''start_date'')
        (get_bool (tc_args tc) ''start_date_time'') (get_str (tc_args tc) ''assignees'')
        (get_str (tc_args tc) ''tags'') (get_str (tc_args tc) ''status'')"
    if "tc_name tc = ''create_clickup_task''"
      and "valid_args create_clickup_task_schema (tc_args tc)"
      and "get_str (tc_args tc) ''list_id'' = Some l" and "get_str (tc_args tc) ''name'' = Some n"
    using that by (simp add: call_tool_def required_def Let_def)
  have step: "run (Suc fuel) model (dispatch loads getenv http) tool_node_name st trace =
        run fuel model (dispatch loads getenv http) chat_node_name
          (st\<lparr>messages := messages st @ [dispatch loads getenv http tc]\<rparr>)
          (trace @ [tool_node_name])"
    if "messages st \<noteq> []" and "last (messages st) = AIMessage content [tc]"
    using that by (simp add: tool_node_def)
  have d1: "dispatch loads getenv http tc =
      ToolMessage (Inl (case ClickUpService_init getenv of Inl c \<Rightarrow> c | Inr self \<Rightarrow> e)) (tc_id tc)"
    if "tc_name tc = ''create_clickup_task''"
      and "valid_args create_clickup_task_schema (tc_args tc)"
      and "get_str (tc_args tc) ''list_id'' = Some l" and "get_str (tc_args tc) ''name'' = Some n"
      and "get_str (tc_args tc) ''assignees'' = Some s" and "s \<noteq> []" and "loads s = Inl e"
    using that
    by (simp add: dispatch_def call [OF that(1-4)] create_clickup_task_def loads_if_cases
          split: sum.splits)
  have d2: "dispatch loads getenv http tc =
      ToolMessage (Inl (case ClickUpService_init getenv of Inl c \<Rightarrow> c | Inr self \<Rightarrow> e)) (tc_id tc)"
    if "tc_name tc = ''create_clickup_task''"
      and "valid_args create_clickup_task_schema (tc_args tc)"
      and "get_str (tc_args tc) ''list_id'' = Some l" and "get_str (tc_args tc) ''name'' = Some n"
      and "loads_if loads (get_str (tc_args tc) ''assignees'') = Inr a"
      and "get_str (tc_args tc) ''tags'' = Some s" and "s \<noteq> []" and "loads s = Inl e"
    using that
    by (simp add: dispatch_def call [OF that(1-4)] create_clickup_task_def
          loads_if_cases [of _ "Some s"] split: sum.splits)
  have dg: "dict_get (sent a t) ''assignees'' = (if truthy a then Some a else None)"
           "dict_get (sent a t) ''tags'' = (if truthy t then Some t else None)"
    unfolding sent_def
    by (rule dict_get_create_task_data_assignees, rule dict_get_create_task_data_tags)
  have empty: "loads_if loads absent = Inr JNull" if "absent = None \<or> absent = Some []"
    using that by (auto simp: loads_if_cases)
  show ?thesis
  proof (intro conjI impI; (elim conjE)?)
    assume "s \<noteq> []" "loads s = Inr a" "loads_if loads tags = Inr t"
    then show "result (Some s) tags =
        (case ClickUpService_init getenv of
           Inl c \<Rightarrow> Inl c
         | Inr self \<Rightarrow>
             http \<lparr>rq_method = POST, rq_url = BASE_URL @ ''/list/'' @ list_id @ ''/task'',
                     rq_headers = headers self, rq_json = Some (sent a t)\<rparr>)"
      by (intro fwd) (simp_all add: loads_if_cases)
  next
    assume "loads_if loads assignees = Inr a" "s \<noteq> []" "loads s = Inr t"
    then show "result assignees (Some s) =
        (case ClickUpService_init getenv of
           Inl c \<Rightarrow> Inl c
         | Inr self \<Rightarrow>
             http \<lparr>rq_method = POST, rq_url = BASE_URL @ ''/list/'' @ list_id @ ''/task'',
                     rq_headers = headers self, rq_json = Some (sent a t)\<rparr>)"
      by (intro fwd) (simp_all add: loads_if_cases)
  next
    assume "s \<noteq> []" "loads s = Inl e"
    then show "result (Some s) tags = (case ClickUpService_init getenv of Inl c \<Rightarrow> Inl c | Inr self \<Rightarrow> Inl e)"
      by (rule err1)
  next
    assume "loads_if loads assignees = Inr a" "s \<noteq> []" "loads s = Inl e"
    then show "result assignees (Some s) = (case ClickUpService_init getenv of Inl c \<Rightarrow> Inl c | Inr self \<Rightarrow> Inl e)"
      by (rule err2)
  next
    assume h: "tc_name tc = ''create_clickup_task''"
      "valid_args create_clickup_task_schema (tc_args tc)"
      "get_str (tc_args tc) ''list_id'' = Some l" "get_str (tc_args tc) ''name'' = Some n"
      "get_str (tc_args tc) ''assignees'' = Some s" "s \<noteq> []" "loads s = Inl e"
      and m: "messages st \<noteq> []" "last (messages st) = AIMessage content [tc]"
    show "dispatch loads getenv http tc = ToolMessage (Inl (case ClickUpService_init getenv of Inl c \<Rightarrow> c | Inr self \<Rightarrow> e)) (tc_id tc)"
      by (rule d1 [OF h])
    show "run (Suc fuel) model (dispatch loads getenv http) tool_node_name st trace =
        run fuel model (dispatch loads getenv http) chat_node_name
          (st\<lparr>messages := messages st @ [ToolMessage (Inl (case ClickUpService_init getenv of Inl c \<Rightarrow> c | Inr self \<Rightarrow> e)) (tc_id tc)]\<rparr>)
          (trace @ [tool_node_name])"
      using step [OF m] by (simp only: d1 [OF h])
  next
    assume h: "tc_name tc = ''create_clickup_task''"
      "valid_args create_clickup_task_schema (tc_args tc)"
      "get_str (tc_args tc) ''list_id'' = Some l" "get_str (tc_args tc) ''name'' = Some n"
      "loads_if loads (get_str (tc_args tc) ''assignees'') = Inr a"
      "get_str (tc_args tc) ''tags'' = Some s" "s \<noteq> []" "loads s = Inl e"
      and m: "messages st \<noteq> []" "last (messages st) = AIMessage content [tc]"
    show "dispatch loads getenv http tc = ToolMessage (Inl (case ClickUpService_init getenv of Inl c \<Rightarrow> c | Inr self \<Rightarrow> e)) (tc_id tc)"
      by (rule d2 [OF h])
    show "run (Suc fuel) model (dispatch loads getenv http) tool_node_name st trace =
        run fuel model (dispatch loads getenv http) chat_node_name
          (st\<lparr>messages := messages st @ [ToolMessage (Inl (case ClickUpService_init getenv of Inl c \<Rightarrow> c | Inr self \<Rightarrow> e)) (tc_id tc)]\<rparr>)
          (trace @ [tool_node_name])"
      using step [OF m] by (simp only: d2 [OF h])
  next
    assume la: "loads_if loads assignees = Inr a" and lt: "loads_if loads tags = Inr t"
      and ab: "absent = None \<or> absent = Some []"
    show "result absent tags =
        (case ClickUpService_init getenv of
           Inl c \<Rightarrow> Inl c
         | Inr self \<Rightarrow>
             http \<lparr>rq_method = POST, rq_url = BASE_URL @ ''/list/'' @ list_id @ ''/task'',
                     rq_headers = headers self, rq_json = Some (sent JNull t)\<rparr>)"
      by (rule fwd [OF empty [OF ab] lt])
    show "result assignees absent =
        (case ClickUpService_init getenv of
           Inl c \<Rightarrow> Inl c
         | Inr self \<Rightarrow>
             http \<lparr>rq_method = POST, rq_url = BASE_URL @ ''/list/'' @ list_id @ ''/task'',
                     rq_headers = headers self, rq_json = Some (sent a JNull)\<rparr>)"
      by (rule fwd [OF la empty [OF ab]])
  qed (rule dg)+
qed

theorem create_task_parses_assignees_and_tags_witness:
  "create_clickup_task loads_examples environ_ok echo ''L1'' ''Plan'' None None None None None
     None None (Some ''[123,456]'') None None =
     Inr (JObj ([(''name'', JStr ''Plan''), (''due_date_time'', JBool False),
                (''start_date_time'', JBool False),
                (''assignees'', JArr [JInt 123, JInt 456])])) \<and>
   create_clickup_task loads_examples environ_ok echo ''L1'' ''Plan'' None None None None None
     None None None (Some ''[123,456]'') None =
     Inr (JObj ([(''name'', JStr ''Plan''), (''due_date_time'', JBool False),
                (''start_date_time'', JBool False),
                (''tags'', JArr [JInt 123, JInt 456])])) \<and>
   create_clickup_task loads_examples environ_ok echo ''L1'' ''Plan'' None None None None None
     None None (Some ''not json'') None None = Inl (JSONDecodeError ''not json'') \<and>
   create_clickup_task loads_examples environ_ok echo ''L1'' ''Plan'' None None None None None
     None None None (Some ''not json'') None = Inl (JSONDecodeError ''not json'') \<and>
   turn 3 model_create_then_answer (dispatch loads_examples environ_ok echo) state0 =
     Some (Inr (state0\<lparr>messages := messages state0 @
                  [AIMessage [] [call_create_assignees],
                   ToolMessage (Inl (JSONDecodeError ''not json'')) ''c3'',
                   AIMessage ''The assignees are not valid JSON.'' []]\<rparr>,
                [chat_node_name, tool_node_name, chat_node_name])) \<and>
   dispatch loads_examples environ_ok echo call_create_tags =
     ToolMessage (Inl (JSONDecodeError ''not json'')) ''c4'' \<and>
   create_clickup_task loads_examples environ_ok echo ''L1'' ''Plan'' None None None None None
     None None None (Some []) None =
     Inr (JObj ([(''name'', JStr ''Plan''), (''due_date_time'', JBool False),
                (''start_date_time'', JBool False)]))"
proof -
  let ?s1 = "state0\<lparr>messages := messages state0 @ [AIMessage [] [call_create_assignees]]\<rparr>"
  let ?s1' = "state0\<lparr>messages := messages state0 @ [AIMessage [] [call_create_tags]]\<rparr>"
  let ?err = "ToolMessage (Inl (JSONDecodeError ''not json'')) ''c3''"
  let ?s2 = "state0\<lparr>messages := messages state0 @
                  [AIMessage [] [call_create_assignees], ?err]\<rparr>"
  let ?s3 = "state0\<lparr>messages := messages state0 @
                  [AIMessage [] [call_create_assignees], ?err,
                   AIMessage ''The assignees are not valid JSON.'' []]\<rparr>"
  let ?d = "dispatch loads_examples environ_ok echo"
  have a: "''[123,456]'' \<noteq> [] \<and> loads_examples ''[123,456]'' = Inr (JArr [JInt 123, JInt 456]) \<and>
           loads_if loads_examples None = Inr JNull"
    by (simp add: loads_examples_def loads_if_cases)
  have a': "loads_if loads_examples None = Inr JNull \<and> ''[123,456]'' \<noteq> [] \<and>
            loads_examples ''[123,456]'' = Inr (JArr [JInt 123, JInt 456])"
    by (simp add: loads_examples_def loads_if_cases)
  have b: "''not json'' \<noteq> [] \<and> loads_examples ''not json'' = Inl (JSONDecodeError ''not json'')"
    by (simp add: loads_examples_def)
  have b': "loads_if loads_examples None = Inr JNull \<and>
            ''not json'' \<noteq> [] \<and> loads_examples ''not json'' = Inl (JSONDecodeError ''not json'')"
    by (simp add: loads_examples_def loads_if_cases)
  have c: "tc_name call_create_assignees = ''create_clickup_task'' \<and>
           valid_args create_clickup_task_schema (tc_args call_create_assignees) \<and>
           get_str (tc_args call_create_assignees) ''list_id'' = Some ''L1'' \<and>
           get_str (tc_args call_create_assignees) ''name'' = Some ''Plan'' \<and>
           get_str (tc_args call_create_assignees) ''assignees'' = Some ''not json'' \<and>
           ''not json'' \<noteq> [] \<and> loads_examples ''not json'' = Inl (JSONDecodeError ''not json'') \<and>
           messages ?s1 \<noteq> [] \<and> last (messages ?s1) = AIMessage [] [call_create_assignees]"
    by (simp add: call_create_assignees_def valid_args_def create_clickup_task_schema_def
          get_str_def dict_get_def loads_examples_def)
  have c': "tc_name call_create_tags = ''create_clickup_task'' \<and>
           valid_args create_clickup_task_schema (tc_args call_create_tags) \<and>
           get_str (tc_args call_create_tags) ''list_id'' = Some ''L1'' \<and>
           get_str (tc_args call_create_tags) ''name'' = Some ''Plan'' \<and>
           loads_if loads_examples (get_str (tc_args call_create_tags) ''assignees'') = Inr JNull \<and>
           get_str (tc_args call_create_tags) ''tags'' = Some ''not json'' \<and>
           ''not json'' \<noteq> [] \<and> loads_examples ''not json'' = Inl (JSONDecodeError ''not json'') \<and>
           messages ?s1' \<noteq> [] \<and> last (messages ?s1') = AIMessage [] [call_create_tags]"
    by (simp add: call_create_tags_def valid_args_def create_clickup_task_schema_def
          get_str_def dict_get_def loads_examples_def loads_if_cases)
  have e: "loads_if loads_examples None = Inr JNull \<and> loads_if loads_examples None = Inr JNull \<and>
           (Some [] = (None :: string option) \<or> Some [] = Some ([] :: string))"
    by (simp add: loads_if_cases)
  note r1 = create_task_parses_assignees_and_tags [where getenv = environ_ok
            and loads = loads_examples and http = echo and list_id = "''L1''"
            and name = "''Plan''" and description = None and due_date = None
            and priority = None and due_date_time = None and time_estimate = None
            and start_date = None and start_date_time = None and status = None
            and tags = None and s = "''[123,456]''" and a = "JArr [JInt 123, JInt 456]"
            and t = JNull,
            THEN conjunct1, THEN mp, OF a]
  note r2 = create_task_parses_assignees_and_tags [where getenv = environ_ok
            and loads = loads_examples and http = echo and list_id = "''L1''"
            and name = "''Plan''" and description = None and due_date = None
            and priority = None and due_date_time = None and time_estimate = None
            and start_date = None and start_date_time = None and status = None
            and assignees = None and a = JNull and s = "''[123,456]''"
            and t = "JArr [JInt 123, JInt 456]",
            THEN conjunct2, THEN conjunct1, THEN mp, OF a']
  note r3 = create_task_parses_assignees_and_tags [where getenv = environ_ok
            and loads = loads_examples and http = echo and list_id = "''L1''"
            and name = "''Plan''" and description = None and due_date = None
            and priority = None and due_date_time = None and time_estimate = None
            and start_date = None and start_date_time = None and status = None
            and tags = None and s = "''not json''"
            and e = "JSONDecodeError ''not json''",
            THEN conjunct2, THEN conjunct2, THEN conjunct1, THEN mp, OF b]
  note r4 = create_task_parses_assignees_and_tags [where getenv = environ_ok
            and loads = loads_examples and http = echo and list_id = "''L1''"
            and name = "''Plan''" and description = None and due_date = None
            and priority = None and due_date_time = None and time_estimate = None
            and start_date = None and start_date_time = None and status = None
            and assignees = None and a = JNull and s = "''not json''"
            and e = "JSONDecodeError ''not json''",
            THEN conjunct2, THEN conjunct2, THEN conjunct2, THEN conjunct1, THEN mp, OF b']
  note r5 = create_task_parses_assignees_and_tags [where getenv = environ_ok
            and loads = loads_examples and http = echo and list_id = "''L1''"
            and name = "''Plan''" and description = None and due_date = None
            and priority = None and due_date_time = None and time_estimate = None
            and start_date = None and start_date_time = None and status = None
            and tc = call_create_assignees and l = "''L1''" and n = "''Plan''"
            and s = "''not json''" and e = "JSONDecodeError ''not json''" and st = "?s1"
            and content = "[]" and model = model_create_then_answer and fuel = 1
            and trace = "[chat_node_name]",
            THEN conjunct2, THEN conjunct2, THEN conjunct2, THEN conjunct2, THEN conjunct1, THEN mp, OF c]
  note r6 = create_task_parses_assignees_and_tags [where getenv = environ_ok
            and loads = loads_examples and http = echo and list_id = "''L1''"
            and name = "''Plan''" and description = None and due_date = None
            and priority = None and due_date_time = None and time_estimate = None
            and start_date = None and start_date_time = None and status = None
            and tc = call_create_tags and l = "''L1''" and n = "''Plan''" and a = JNull
            and s = "''not json''" and e = "JSONDecodeError ''not json''" and st = "?s1'"
            and content = "[]",
            THEN conjunct2, THEN conjunct2, THEN conjunct2, THEN conjunct2, THEN conjunct2, THEN conjunct1, THEN mp, OF c']
  note r7 = create_task_parses_assignees_and_tags [where getenv = environ_ok
            and loads = loads_examples and http = echo and list_id = "''L1''"
            and name = "''Plan''" and description = None and due_date = None
            and priority = None and due_date_time = None and time_estimate = None
            and start_date = None and start_date_time = None and status = None
            and assignees = None and a = JNull and tags = None and t = JNull
            and absent = "Some []",
            THEN conjunct2, THEN conjunct2, THEN conjunct2, THEN conjunct2, THEN conjunct2, THEN conjunct2, THEN mp, OF e]
  have id: "tc_id call_create_assignees = ''c3''" "tc_id call_create_tags = ''c4''"
    by (simp_all add: call_create_assignees_def call_create_tags_def)
  have q1: "response model_create_then_answer state0 = Inr (AIMessage [] [call_create_assignees])"
    by (simp add: response_def model_create_then_answer_def state0_def system_message_def)
  have x1: "\<not> external (actions (copilotkit state0)) call_create_assignees"
    by (simp add: external_def state0_def dict_get_def call_create_assignees_def)
  have k1: "chat_node model_create_then_answer state0 =
      Inr \<lparr>goto = tool_node_name,
           update = [(''messages'', Message (AIMessage [] [call_create_assignees]))]\<rparr>"
    by (simp add: chat_node_cases q1 x1)
  have q2: "response model_create_then_answer ?s2 =
              Inr (AIMessage ''The assignees are not valid JSON.'' [])"
    by (simp add: response_def model_create_then_answer_def state0_def)
  have k2: "chat_node model_create_then_answer ?s2 =
      Inr \<lparr>goto = END,
           update = [(''messages'', Message (AIMessage ''The assignees are not valid JSON.'' []))]\<rparr>"
    by (simp add: chat_node_cases q2)
  have u1: "apply_update state0 [(''messages'', Message (AIMessage [] [call_create_assignees]))] = ?s1"
    by simp
  have u3: "apply_update ?s2
              [(''messages'', Message (AIMessage ''The assignees are not valid JSON.'' []))] = ?s3"
    by simp
  have "run (Suc (Suc (Suc 0))) model_create_then_answer ?d chat_node_name state0 [] =
        run (Suc (Suc 0)) model_create_then_answer ?d tool_node_name ?s1 [chat_node_name]"
    by (simp only: run.simps k1 sum.case Command.simps u1 append_Nil)
  also have "\<dots> = run (Suc 0) model_create_then_answer ?d chat_node_name ?s2
                     [chat_node_name, tool_node_name]"
    using r5 [THEN conjunct2] by (simp add: init_environ_ok id)
  also have "\<dots> = run 0 model_create_then_answer ?d END ?s3
                     [chat_node_name, tool_node_name, chat_node_name]"
    by (simp only: run.simps k2 sum.case Command.simps u3 append_Cons append_Nil)
  also have "\<dots> = Some (Inr (?s3, [chat_node_name, tool_node_name, chat_node_name]))"
    by (simp only: run.simps)
  finally have t: "turn 3 model_create_then_answer ?d state0 =
        Some (Inr (?s3, [chat_node_name, tool_node_name, chat_node_name]))"
    by (simp add: turn_def numeral_3_eq_3)
  have d6: "?d call_create_tags = ToolMessage (Inl (JSONDecodeError ''not json'')) ''c4''"
    using r6 [THEN conjunct1] by (simp add: init_environ_ok id)
  show ?thesis
    using r1 r2 r3 r4 r7 t d6
    by (simp add: init_environ_ok echo_def create_task_data_eq of_str_def of_int_def)
qed

text \<open>The claim as stated fails for the empty text: it does not decode, and the tool
  neither raises nor forwards it; the request is sent without the field.\<close>

theorem create_task_empty_text_counterexample:
  "loads_examples [] = Inl (JSONDecodeError []) \<and>
   create_clickup_task loads_examples environ_ok echo ''L1'' ''Plan'' None None None None None
     None None (Some []) None None =
     Inr (JObj [(''name'', JStr ''Plan''), (''due_date_time'', JBool False),
                (''start_date_time'', JBool False)])"
  by (simp add: loads_examples_def create_clickup_task_def init_environ_ok loads_if_cases
        create_task_def create_task_data_eq echo_def of_str_def of_int_def)

end
